theory Spec2Isabelle
  imports Main "HOL-Library.Word"
begin

section \<open>JavaScript strings\<close>

text \<open>
  A JavaScript string is a sequence of UTF-16 code units; \<open>length\<close>, \<open>trim\<close>, \<open>===\<close> and
  the (non-unicode) regular expressions of \<open>static/js/main.js\<close> all work on code units.
  String literals of the source are ASCII and are written \<open>js ''...''\<close>.
\<close>

type_synonym jschar = "16 word"
type_synonym jsstring = "jschar list"

definition js :: "string \<Rightarrow> jsstring" where
  "js s = map of_char s"

text \<open>
  \<open>WhiteSpace\<close> and \<open>LineTerminator\<close> of ECMAScript: the code units removed by
  \<open>String.prototype.trim\<close>, skipped by \<open>parseFloat\<close> and matched by the class \<open>\s\<close>.
\<close>

definition isWhiteSpace :: "jschar \<Rightarrow> bool" where
  "isWhiteSpace c \<longleftrightarrow>
     c \<in> {0x0009, 0x000A, 0x000B, 0x000C, 0x000D, 0x0020, 0x00A0, 0x1680,
          0x2028, 0x2029, 0x202F, 0x205F, 0x3000, 0xFEFF}
     \<or> (0x2000 \<le> c \<and> c \<le> 0x200A)"

definition trimStart :: "jsstring \<Rightarrow> jsstring" where
  "trimStart s = dropWhile isWhiteSpace s"

definition trim :: "jsstring \<Rightarrow> jsstring" where
  "trim s = rev (dropWhile isWhiteSpace (rev (dropWhile isWhiteSpace s)))"

text \<open>
  \<open>s.replace(pat, rep)\<close> with a string pattern: only the first occurrence of \<open>pat\<close> is
  replaced (the replacement strings of the source contain no \<open>$\<close>).
\<close>

fun replace :: "jsstring \<Rightarrow> jsstring \<Rightarrow> jsstring \<Rightarrow> jsstring" where
  "replace pat rep [] = (if pat = [] then rep else [])"
| "replace pat rep (c # s) =
     (if take (length pat) (c # s) = pat then rep @ drop (length pat) (c # s)
      else c # replace pat rep s)"

section \<open>Regular expressions\<close>

text \<open>
  The two patterns of \<open>validateField\<close> are anchored at both ends and use classes,
  concatenation and repetition only, so \<open>regex.test(s)\<close> is membership of the whole
  string in the pattern's language. Membership is computed with derivatives.
\<close>

datatype regex =
    Never
  | Empty
  | Class "jschar \<Rightarrow> bool"
  | Seq regex regex
  | Alt regex regex
  | Star regex

fun nullable :: "regex \<Rightarrow> bool" where
  "nullable Never = False"
| "nullable Empty = True"
| "nullable (Class p) = False"
| "nullable (Seq r s) = (nullable r \<and> nullable s)"
| "nullable (Alt r s) = (nullable r \<or> nullable s)"
| "nullable (Star r) = True"

fun deriv :: "jschar \<Rightarrow> regex \<Rightarrow> regex" where
  "deriv c Never = Never"
| "deriv c Empty = Never"
| "deriv c (Class p) = (if p c then Empty else Never)"
| "deriv c (Seq r s) =
     (if nullable r then Alt (Seq (deriv c r) s) (deriv c s) else Seq (deriv c r) s)"
| "deriv c (Alt r s) = Alt (deriv c r) (deriv c s)"
| "deriv c (Star r) = Seq (deriv c r) (Star r)"

fun test :: "regex \<Rightarrow> jsstring \<Rightarrow> bool" where
  "test r [] = nullable r"
| "test r (c # s) = test (deriv c r) s"

definition OneOrMore :: "regex \<Rightarrow> regex" where
  "OneOrMore r = Seq r (Star r)"

fun Times :: "nat \<Rightarrow> regex \<Rightarrow> regex" where
  "Times 0 r = Empty"
| "Times (Suc n) r = Seq r (Times n r)"

definition Lit :: "jschar \<Rightarrow> regex" where
  "Lit c = Class (\<lambda>x. x = c)"

definition isDigit :: "jschar \<Rightarrow> bool" where
  "isDigit c \<longleftrightarrow> 0x30 \<le> c \<and> c \<le> 0x39"

text \<open>\<open>/^[^\s@]+@[^\s@]+\.[^\s@]+$/\<close>\<close>

definition notSpaceAt :: "jschar \<Rightarrow> bool" where
  "notSpaceAt c \<longleftrightarrow> \<not> isWhiteSpace c \<and> c \<noteq> 0x40"

definition emailRegex :: regex where
  "emailRegex =
     Seq (OneOrMore (Class notSpaceAt))
      (Seq (Lit 0x40)
        (Seq (OneOrMore (Class notSpaceAt))
          (Seq (Lit 0x2E) (OneOrMore (Class notSpaceAt)))))"

text \<open>\<open>/^[6-9]\d{9}$/\<close>\<close>

definition phoneRegex :: regex where
  "phoneRegex = Seq (Class (\<lambda>c. 0x36 \<le> c \<and> c \<le> 0x39)) (Times 9 (Class isDigit))"

section \<open>Numbers: \<open>parseFloat\<close>\<close>

text \<open>
  A Number is an IEEE 754 double. \<open>Finite m k\<close> is the double \<open>m * 2^k\<close> (the two zeros
  are not told apart: the source only tests \<open>isNaN\<close> and \<open>\<le> 0\<close>).
\<close>

datatype jsnumber = NaN | PosInfinity | NegInfinity | Finite int int

fun isNaN :: "jsnumber \<Rightarrow> bool" where
  "isNaN NaN = True"
| "isNaN _ = False"

text \<open>\<open>x <= 0\<close>: every comparison with \<open>NaN\<close> is false.\<close>

fun le_zero :: "jsnumber \<Rightarrow> bool" where
  "le_zero NaN = False"
| "le_zero PosInfinity = False"
| "le_zero NegInfinity = True"
| "le_zero (Finite m k) = (m \<le> 0)"


fun bitlength :: "int \<Rightarrow> nat" where
  "bitlength n = (if n \<le> 0 then 0 else Suc (bitlength (n div 2)))"

declare bitlength.simps [simp del]

text \<open>
  The double nearest to the positive rational \<open>num / den\<close>, ties to even: \<open>Some (n, k)\<close>
  for the double \<open>n * 2^k\<close>, \<open>None\<close> when the rounded value is out of range (infinity).
  \<open>e2\<close> is the binary exponent of \<open>num / den\<close>, \<open>k\<close> the exponent of the last mantissa
  bit (53 bits; subnormal below \<open>2^-1022\<close>).
\<close>

definition toDouble :: "int \<Rightarrow> int \<Rightarrow> (int \<times> int) option" where
  "toDouble num den =
     (let d = int (bitlength num) - int (bitlength den);
          e2 = (if (if 0 \<le> d then den * 2 ^ nat d \<le> num else den \<le> num * 2 ^ nat (- d))
                then d else d - 1);
          k = max e2 (- 1022) - 52;
          a = (if 0 \<le> k then num else num * 2 ^ nat (- k));
          b = (if 0 \<le> k then den * 2 ^ nat k else den);
          q = a div b;
          r = a mod b;
          n = (if 2 * r < b then q else if b < 2 * r then q + 1
               else if even q then q else q + 1)
      in if 0 \<le> k \<and> 2 ^ 1024 \<le> n * 2 ^ nat k then None else Some (n, k))"

definition digitsValue :: "jsstring \<Rightarrow> int" where
  "digitsValue ds = foldl (\<lambda>a c. 10 * a + uint (c - 0x30)) 0 ds"

text \<open>The Number value of \<open>\<plusminus> m * 10^e\<close>.\<close>

definition toNumber :: "bool \<Rightarrow> int \<Rightarrow> int \<Rightarrow> jsnumber" where
  "toNumber neg m e =
     (if m = 0 then Finite 0 0
      else case (if 0 \<le> e then toDouble (m * 10 ^ nat e) 1 else toDouble m (10 ^ nat (- e))) of
             None \<Rightarrow> (if neg then NegInfinity else PosInfinity)
           | Some (n, k) \<Rightarrow> Finite (if neg then - n else n) k)"

text \<open>\<open>ExponentPart\<close>: \<open>e\<close> or \<open>E\<close>, an optional sign and at least one digit; otherwise absent.\<close>

definition exponentPart :: "jsstring \<Rightarrow> int" where
  "exponentPart s =
     (case s of
        [] \<Rightarrow> 0
      | c # r \<Rightarrow>
          if c = 0x65 \<or> c = 0x45 then
            (case r of
               [] \<Rightarrow> 0
             | g # t \<Rightarrow>
                 if g = 0x2D then
                   (if takeWhile isDigit t = [] then 0 else - digitsValue (takeWhile isDigit t))
                 else if g = 0x2B then
                   (if takeWhile isDigit t = [] then 0 else digitsValue (takeWhile isDigit t))
                 else
                   (if takeWhile isDigit r = [] then 0 else digitsValue (takeWhile isDigit r)))
          else 0)"

text \<open>
  \<open>parseFloat(string)\<close>: leading white space is skipped, then the longest prefix that is a
  \<open>StrDecimalLiteral\<close> (sign, then \<open>Infinity\<close> or digits with an optional fraction and
  exponent) is converted; whatever follows is ignored; \<open>NaN\<close> when there is no such prefix.
\<close>

definition parseFloat :: "jsstring \<Rightarrow> jsnumber" where
  "parseFloat string =
     (let s = trimStart string;
          neg = (take 1 s = [0x2D]);
          u = (if take 1 s = [0x2D] \<or> take 1 s = [0x2B] then drop 1 s else s)
      in if take 8 u = js ''Infinity'' then (if neg then NegInfinity else PosInfinity)
         else
           let ip = takeWhile isDigit u;
               r1 = dropWhile isDigit u;
               fp = (if take 1 r1 = [0x2E] then takeWhile isDigit (drop 1 r1) else []);
               r2 = (if take 1 r1 = [0x2E] then dropWhile isDigit (drop 1 r1) else r1)
           in if ip = [] \<and> fp = [] then NaN
              else toNumber neg (digitsValue (ip @ fp)) (exponentPart r2 - int (length fp)))"

section \<open>Fields and the document\<close>

text \<open>
  An \<open>option\<close> of a \<open>select\<close>: its value, whether it is selected, and whether it is disabled
  (by its own attribute or by its \<open>optgroup\<close>).
\<close>

record select_option =
  o_value :: jsstring
  o_selected :: bool
  o_disabled :: bool

text \<open>
  The attributes and properties of a form control that \<open>main.js\<close> reads: \<open>name\<close>, \<open>id\<close>,
  \<open>type\<close>, \<open>value\<close>, the presence of the \<open>required\<close> attribute, and for the autosave store
  \<open>checked\<close>, \<open>disabled\<close> (the control's own attribute or a disabled \<open>fieldset\<close> around it),
  the names of the files selected in a file input and the options of a \<open>select\<close>, in tree
  order. \<open>f_type\<close> is the \<open>type\<close> property: one of the input types for an \<open>input\<close>,
  \<open>textarea\<close> for a \<open>textarea\<close>, \<open>select-one\<close> or \<open>select-multiple\<close> for a \<open>select\<close>.
\<close>

record field =
  f_name :: jsstring
  f_id :: jsstring
  f_type :: jsstring
  f_value :: jsstring
  f_required :: bool
  f_checked :: bool
  f_disabled :: bool
  f_files :: "jsstring list"
  f_options :: "select_option list"

text \<open>An enabled control of the given type, name and value, not marked \<open>required\<close>.\<close>

definition control :: "string \<Rightarrow> string \<Rightarrow> string \<Rightarrow> field" where
  "control ty nm v =
     \<lparr>f_name = js nm, f_id = [], f_type = js ty, f_value = js v, f_required = False,
      f_checked = False, f_disabled = False, f_files = [], f_options = []\<rparr>"

text \<open>
  A form carries its \<open>data-autosave\<close> attribute (\<open>form.dataset.autosave\<close>, absent for a form
  that did not opt in) and its controls in tree order: the \<open>input\<close>, \<open>textarea\<close> and
  \<open>select\<close> elements of its subtree, which are the \<open>inputs\<close> of \<open>initFormValidation\<close>. A
  document is a sequence of forms and of controls outside any form, in tree order.
  Field validation looks up one name in the whole document, \<open>password1\<close>; the document
  model covers the pages on which only controls carry that name.
\<close>

record form =
  autosave :: "jsstring option"
  controls :: "field list"

datatype node = FormElement form | Control field

type_synonym document = "node list"

fun elementsOf :: "node \<Rightarrow> field list" where
  "elementsOf (FormElement fm) = controls fm"
| "elementsOf (Control f) = [f]"

definition elements :: "document \<Rightarrow> field list" where
  "elements doc = concat (map elementsOf doc)"

text \<open>
  \<open>document.querySelector('[name="n"]')\<close> for a non-empty name \<open>n\<close> without quote,
  backslash or line break, over the controls of the document: the first of them, in tree
  order, whose \<open>name\<close> attribute is \<open>n\<close>; \<open>None\<close> is \<open>null\<close>.
\<close>

definition querySelectorName :: "field list \<Rightarrow> jsstring \<Rightarrow> field option" where
  "querySelectorName els n = find (\<lambda>e. f_name e = n) els"

section \<open>Field validation\<close>

text \<open>
  \<open>validateField\<close> keeps two locals, \<open>isValid\<close> and \<open>errorMessage\<close>, and runs six
  independent \<open>if\<close> blocks one after the other. Each block is modelled by the message it
  assigns when its test fails (\<open>None\<close> when the block leaves the locals alone).
\<close>

record verdict =
  isValid :: bool
  errorMessage :: jsstring

definition fieldName :: "field \<Rightarrow> jsstring" where
  "fieldName fld = (if f_name fld \<noteq> [] then f_name fld else f_id fld)"

definition requiredRule :: "field \<Rightarrow> jsstring option" where
  "requiredRule fld =
     (if f_required fld \<and> trim (f_value fld) = []
      then Some (replace (js ''_'') (js '' '') (fieldName fld) @ js '' is required'')
      else None)"

definition emailRule :: "field \<Rightarrow> jsstring option" where
  "emailRule fld =
     (if f_type fld = js ''email'' \<and> trim (f_value fld) \<noteq> []
      then (if \<not> test emailRegex (trim (f_value fld))
            then Some (js ''Please enter a valid email address'') else None)
      else None)"

definition phoneRule :: "field \<Rightarrow> jsstring option" where
  "phoneRule fld =
     (if f_name fld = js ''phone_number'' \<and> trim (f_value fld) \<noteq> []
      then (if \<not> test phoneRegex (trim (f_value fld))
            then Some (js ''Please enter a valid 10-digit mobile number'') else None)
      else None)"

definition password1Rule :: "field \<Rightarrow> jsstring option" where
  "password1Rule fld =
     (if f_name fld = js ''password1'' \<and> trim (f_value fld) \<noteq> []
      then (if length (trim (f_value fld)) < 8
            then Some (js ''Password must be at least 8 characters long'') else None)
      else None)"

definition password2Rule :: "document \<Rightarrow> field \<Rightarrow> jsstring option" where
  "password2Rule doc fld =
     (if f_name fld = js ''password2'' \<and> trim (f_value fld) \<noteq> []
      then (case querySelectorName (elements doc) (js ''password1'') of
              None \<Rightarrow> None
            | Some password1 \<Rightarrow>
                if trim (f_value fld) \<noteq> f_value password1
                then Some (js ''Passwords do not match'') else None)
      else None)"

definition priceRule :: "field \<Rightarrow> jsstring option" where
  "priceRule fld =
     (if f_name fld = js ''price_per_day'' \<and> trim (f_value fld) \<noteq> []
      then (if isNaN (parseFloat (trim (f_value fld))) \<or> le_zero (parseFloat (trim (f_value fld)))
            then Some (js ''Please enter a valid price'') else None)
      else None)"

text \<open>A failing block overwrites both locals; a passing block changes nothing.\<close>

fun block :: "jsstring option \<Rightarrow> verdict \<Rightarrow> verdict" where
  "block None v = v"
| "block (Some m) v = \<lparr>isValid = False, errorMessage = m\<rparr>"


text \<open>The locals when line 321 is reached.\<close>

definition validateField_locals :: "document \<Rightarrow> field \<Rightarrow> verdict" where
  "validateField_locals doc fld =
     block (priceRule fld)
      (block (password2Rule doc fld)
        (block (password1Rule fld)
          (block (phoneRule fld)
            (block (emailRule fld)
              (block (requiredRule fld) \<lparr>isValid = True, errorMessage = []\<rparr>)))))"



section \<open>Error annotations\<close>

text \<open>
  The part of the page that \<open>showFieldError\<close> and \<open>clearFieldError\<close> touch: the field's own
  element and the subtree of \<open>field.parentElement\<close>. An element has its class list, the
  markup last assigned to \<open>innerHTML\<close> and its element children (text nodes play no part).
\<close>

datatype element = Element (classList: "jsstring list") (innerHTML: jsstring) (children: "element list")

text \<open>
  A field as a place in the tree: its own element and the children of its parent that
  come before and after it (\<open>None\<close> when \<open>parentElement\<close> is \<open>null\<close>).
\<close>

record field_dom =
  self :: element
  siblings :: "(element list \<times> element list) option"

datatype jserror = TypeError | SyntaxError | InvalidStateError

text \<open>
  A call either returns a value or throws; both leave a state behind, since what was
  mutated before a throw stays mutated.
\<close>

datatype ('a, 's) result = Return 'a 's | Throw jserror 's

text \<open>
  The selector \<open>.field-error\<close>; class names are compared as they are written (the page is
  not in quirks mode).
\<close>

definition isFieldError :: "element \<Rightarrow> bool" where
  "isFieldError e \<longleftrightarrow> js ''field-error'' \<in> set (classList e)"

text \<open>The elements of a forest in tree order, the order in which \<open>querySelector\<close> searches.\<close>

fun treeOrder :: "element list \<Rightarrow> element list" where
  "treeOrder [] = []"
| "treeOrder (Element cl h cs # es) = Element cl h cs # treeOrder cs @ treeOrder es"

text \<open>
  \<open>const errorDiv = root.querySelector('.field-error'); if (errorDiv) errorDiv.remove()\<close> on
  the children of \<open>root\<close>: the first match in tree order is taken out with its subtree;
  \<open>None\<close> when nothing matches.
\<close>

fun removeFirstError :: "element list \<Rightarrow> element list option" where
  "removeFirstError [] = None"
| "removeFirstError (Element cl h cs # es) =
     (if js ''field-error'' \<in> set cl then Some es
      else case removeFirstError cs of
             Some cs' \<Rightarrow> Some (Element cl h cs' # es)
           | None \<Rightarrow>
               (case removeFirstError es of
                  Some es' \<Rightarrow> Some (Element cl h cs # es')
                | None \<Rightarrow> None))"

definition classList_remove :: "jsstring \<Rightarrow> element \<Rightarrow> element" where
  "classList_remove c e = Element (filter (\<lambda>x. x \<noteq> c) (classList e)) (innerHTML e) (children e)"

definition classList_add :: "jsstring \<Rightarrow> element \<Rightarrow> element" where
  "classList_add c e =
     (if c \<in> set (classList e) then e
      else Element (classList e @ [c]) (innerHTML e) (children e))"

text \<open>
  \<open>clearFieldError(field)\<close>. The search runs over the children of the parent, the field
  among them: a match before the field, the field itself (it then leaves the tree), a
  match below the field, or a match after it.
\<close>

definition clearFieldError :: "field_dom \<Rightarrow> (unit, field_dom) result" where
  "clearFieldError fd =
     (let fld = classList_remove (js ''error'') (self fd) in
      case siblings fd of
        None \<Rightarrow> Throw TypeError (fd\<lparr>self := fld\<rparr>)
      | Some (before, after) \<Rightarrow>
          (case removeFirstError before of
             Some before' \<Rightarrow> Return () \<lparr>self = fld, siblings = Some (before', after)\<rparr>
           | None \<Rightarrow>
               if isFieldError fld then Return () \<lparr>self = fld, siblings = None\<rparr>
               else
                 (case removeFirstError (children fld) of
                    Some cs' \<Rightarrow>
                      Return () \<lparr>self = Element (classList fld) (innerHTML fld) cs',
                                 siblings = Some (before, after)\<rparr>
                  | None \<Rightarrow>
                      (case removeFirstError after of
                         Some after' \<Rightarrow> Return () \<lparr>self = fld, siblings = Some (before, after')\<rparr>
                       | None \<Rightarrow> Return () \<lparr>self = fld, siblings = Some (before, after)\<rparr>))))"

text \<open>
  The markup that \<open>showFieldError\<close> assigns to \<open>innerHTML\<close>: the icon, a space and the
  message, which is not escaped.
\<close>

definition errorMarkup :: "jsstring \<Rightarrow> jsstring" where
  "errorMarkup message = js ''<i class=\"fas fa-exclamation-circle\"></i> '' @ message"

text \<open>
  Assigning to \<open>innerHTML\<close> runs the HTML parser of the browser on the markup, and the
  elements it builds become the children of the node. The parser is no part of
  \<open>main.js\<close>: the functions that reach \<open>showFieldError\<close> take it as their first argument,
  \<open>parser markup\<close> being the element children built from \<open>markup\<close> inside a \<open>div\<close>. The node
  built by \<open>showFieldError\<close> is a \<open>div\<close> of class \<open>field-error\<close> with these children.
\<close>

definition errorDiv :: "(jsstring \<Rightarrow> element list) \<Rightarrow> jsstring \<Rightarrow> element" where
  "errorDiv parser message =
     Element [js ''field-error''] (errorMarkup message) (parser (errorMarkup message))"

text \<open>
  What the parser builds from the markup of \<open>showFieldError\<close> when the message holds no
  \<open><\<close>, as the five fixed messages of \<open>validateField\<close> and the names of the fields of the
  examples do: the icon (an \<open>i\<close> with its two classes), followed by text.
\<close>

definition iconOnly :: "jsstring \<Rightarrow> element list" where
  "iconOnly markup = [Element [js ''fas'', js ''fa-exclamation-circle''] [] []]"

definition showFieldError ::
  "(jsstring \<Rightarrow> element list) \<Rightarrow> field_dom \<Rightarrow> jsstring \<Rightarrow> (unit, field_dom) result" where
  "showFieldError parser fd message =
     (case clearFieldError fd of
        Throw e fd' \<Rightarrow> Throw e fd'
      | Return _ fd' \<Rightarrow>
          (let fld = classList_add (js ''error'') (self fd') in
           case siblings fd' of
             None \<Rightarrow> Throw TypeError (fd'\<lparr>self := fld\<rparr>)
           | Some (before, after) \<Rightarrow>
               Return () \<lparr>self = fld, siblings = Some (before, after @ [errorDiv parser message])\<rparr>))"

text \<open>
  \<open>validateField(field)\<close>: the six blocks, then the annotation is shown or cleared and
  \<open>isValid\<close> is returned.
\<close>

definition validateField ::
  "(jsstring \<Rightarrow> element list) \<Rightarrow> document \<Rightarrow> field \<Rightarrow> field_dom \<Rightarrow> (bool, field_dom) result" where
  "validateField parser doc fld fd =
     (if \<not> isValid (validateField_locals doc fld)
      then (case showFieldError parser fd (errorMessage (validateField_locals doc fld)) of
              Throw e fd' \<Rightarrow> Throw e fd'
            | Return _ fd' \<Rightarrow> Return False fd')
      else (case clearFieldError fd of
              Throw e fd' \<Rightarrow> Throw e fd'
            | Return _ fd' \<Rightarrow> Return True fd'))"

text \<open>The error nodes of a field: the \<open>.field-error\<close> elements below its parent.\<close>

definition errorNodes :: "field_dom \<Rightarrow> element list" where
  "errorNodes fd =
     (case siblings fd of
        None \<Rightarrow> []
      | Some (before, after) \<Rightarrow> filter isFieldError (treeOrder (before @ [self fd] @ after)))"

text \<open>A sequence of calls on one field; it stops at the first call that throws.\<close>

datatype call = ShowFieldError jsstring | ClearFieldError

fun perform :: "(jsstring \<Rightarrow> element list) \<Rightarrow> call \<Rightarrow> field_dom \<Rightarrow> (unit, field_dom) result" where
  "perform parser (ShowFieldError message) fd = showFieldError parser fd message"
| "perform parser ClearFieldError fd = clearFieldError fd"

fun performAll ::
  "(jsstring \<Rightarrow> element list) \<Rightarrow> call list \<Rightarrow> field_dom \<Rightarrow> (unit, field_dom) result" where
  "performAll parser [] fd = Return () fd"
| "performAll parser (c # cs) fd =
     (case perform parser c fd of
        Throw e fd' \<Rightarrow> Throw e fd'
      | Return _ fd' \<Rightarrow> performAll parser cs fd')"

section \<open>The submit event\<close>

text \<open>
  What the handlers change outside the form: \<open>localStorage\<close>, the console and the
  notifications raised through \<open>showNotification(message, type)\<close>. The toast element and
  its timers are not part of the model.
\<close>

datatype console_entry = ConsoleLog jsstring | ConsoleError jsstring jserror

record page =
  localStorage :: "jsstring \<rightharpoonup> jsstring"
  console :: "console_entry list"
  notifications :: "(jsstring \<times> jsstring) list"

definition showNotification :: "jsstring \<Rightarrow> jsstring \<Rightarrow> page \<Rightarrow> page" where
  "showNotification message type pg = pg\<lparr>notifications := notifications pg @ [(message, type)]\<rparr>"

text \<open>The key \<open>`form_${formId}`\<close>.\<close>

definition storageKey :: "jsstring \<Rightarrow> jsstring" where
  "storageKey formId = js ''form_'' @ formId"

text \<open>\<open>clearFormData(formId)\<close>; the log line starts with U+1F5D1 U+FE0F.\<close>

definition clearFormData :: "jsstring \<Rightarrow> page \<Rightarrow> page" where
  "clearFormData formId pg =
     pg\<lparr>localStorage := (localStorage pg)(storageKey formId := None),
        console := console pg @
          [ConsoleLog ([0xD83D, 0xDDD1, 0xFE0F] @ js '' Form data cleared: '' @ formId)]\<rparr>"

text \<open>
  While a submit event is dispatched the handlers see the inputs of the form (each with
  its place in the tree; every input is given a parent of its own, which has no bearing
  on what \<open>validateField\<close> returns), the page and the event's \<open>defaultPrevented\<close> flag.
\<close>

record dispatching =
  inputs :: "(field \<times> field_dom) list"
  page_state :: page
  defaultPrevented :: bool

text \<open>
  \<open>inputs.forEach(input => { if (!validateField(input)) isValid = false; })\<close>: every input
  is validated, a failing one does not stop the loop, a throwing one does.
\<close>

fun validateEach ::
  "(jsstring \<Rightarrow> element list) \<Rightarrow> document \<Rightarrow> (field \<times> field_dom) list \<Rightarrow> bool
     \<Rightarrow> (bool, (field \<times> field_dom) list) result" where
  "validateEach parser doc [] ok = Return ok []"
| "validateEach parser doc ((fld, fd) # rest) ok =
     (case validateField parser doc fld fd of
        Throw e fd' \<Rightarrow> Throw e ((fld, fd') # rest)
      | Return v fd' \<Rightarrow>
          (case validateEach parser doc rest (if \<not> v then False else ok) of
             Throw e rest' \<Rightarrow> Throw e ((fld, fd') # rest')
           | Return r rest' \<Rightarrow> Return r ((fld, fd') # rest')))"

text \<open>The submit listener of \<open>initFormValidation\<close> (lines 248 to 261).\<close>

definition validationSubmit ::
  "(jsstring \<Rightarrow> element list) \<Rightarrow> document \<Rightarrow> dispatching \<Rightarrow> (unit, dispatching) result" where
  "validationSubmit parser doc st =
     (case validateEach parser doc (inputs st) True of
        Throw e ins \<Rightarrow> Throw e (st\<lparr>inputs := ins\<rparr>)
      | Return ok ins \<Rightarrow>
          if \<not> ok
          then Return ()
                 (st\<lparr>inputs := ins, defaultPrevented := True,
                     page_state :=
                       showNotification (js ''Please fix the errors in the form'') (js ''error'')
                         (page_state st)\<rparr>)
          else Return () (st\<lparr>inputs := ins\<rparr>))"

text \<open>The submit listener of \<open>initAutoSave\<close> (lines 477 to 479).\<close>

definition autosaveSubmit :: "jsstring \<Rightarrow> dispatching \<Rightarrow> (unit, dispatching) result" where
  "autosaveSubmit formId st = Return () (st\<lparr>page_state := clearFormData formId (page_state st)\<rparr>)"

text \<open>
  An exception that escapes a listener is reported to the window's \<open>error\<close> handler, which
  logs it (the line starts with U+1F6A8); the remaining listeners still run.
\<close>

definition reportError :: "jserror \<Rightarrow> dispatching \<Rightarrow> dispatching" where
  "reportError e st =
     st\<lparr>page_state := (page_state st)\<lparr>console := console (page_state st) @
        [ConsoleError ([0xD83D, 0xDEA8] @ js '' Global error:'') e]\<rparr>\<rparr>"

fun dispatch :: "(dispatching \<Rightarrow> (unit, dispatching) result) list \<Rightarrow> dispatching \<Rightarrow> dispatching" where
  "dispatch [] st = st"
| "dispatch (listener # listeners) st =
     (case listener st of
        Return _ st' \<Rightarrow> dispatch listeners st'
      | Throw e st' \<Rightarrow> dispatch listeners (reportError e st'))"

text \<open>
  The listeners of a form in registration order: \<open>initFormValidation\<close> runs before
  \<open>initAutoSave\<close>, and only a form with a \<open>data-autosave\<close> attribute gets the second one.
\<close>

definition submitListeners ::
  "(jsstring \<Rightarrow> element list) \<Rightarrow> document \<Rightarrow> form
     \<Rightarrow> (dispatching \<Rightarrow> (unit, dispatching) result) list" where
  "submitListeners parser doc fm =
     validationSubmit parser doc #
       (case autosave fm of None \<Rightarrow> [] | Some formId \<Rightarrow> [autosaveSubmit formId])"

definition submitEvent ::
  "(jsstring \<Rightarrow> element list) \<Rightarrow> document \<Rightarrow> form \<Rightarrow> field_dom list \<Rightarrow> page \<Rightarrow> dispatching" where
  "submitEvent parser doc fm doms pg =
     dispatch (submitListeners parser doc fm)
       \<lparr>inputs = zip (controls fm) doms, page_state = pg, defaultPrevented = False\<rparr>"

section \<open>JSON\<close>

text \<open>
  The values \<open>JSON.parse\<close> can return. The properties of an object are kept in the order in
  which \<open>Object.entries\<close> and \<open>JSON.stringify\<close> enumerate them.
\<close>

datatype json =
    JNull
  | JBool bool
  | JNumber jsnumber
  | JString jsstring
  | JArray "json list"
  | JObject "(jsstring \<times> json) list"

subsection \<open>Property order\<close>

text \<open>
  An array index is the canonical decimal form of an integer below \<open>2^32 - 1\<close>. The own
  properties of an ordinary object are enumerated with the array indices first, in
  ascending order, then the other keys in the order of their creation.
\<close>

definition isArrayIndex :: "jsstring \<Rightarrow> bool" where
  "isArrayIndex k \<longleftrightarrow>
     k \<noteq> [] \<and> (\<forall>c \<in> set k. isDigit c) \<and> (k = [0x30] \<or> hd k \<noteq> 0x30)
     \<and> digitsValue k < 4294967295"

fun insertProperty :: "jsstring \<Rightarrow> 'v \<Rightarrow> (jsstring \<times> 'v) list \<Rightarrow> (jsstring \<times> 'v) list" where
  "insertProperty k v [] = [(k, v)]"
| "insertProperty k v ((k', v') # ps) =
     (if isArrayIndex k \<and> (\<not> isArrayIndex k' \<or> digitsValue k < digitsValue k')
      then (k, v) # (k', v') # ps
      else (k', v') # insertProperty k v ps)"

text \<open>
  \<open>CreateDataProperty\<close>: an existing property keeps its place and gets the new value, a new
  one is put where the enumeration order wants it.
\<close>

definition defineProperty :: "jsstring \<Rightarrow> 'v \<Rightarrow> (jsstring \<times> 'v) list \<Rightarrow> (jsstring \<times> 'v) list" where
  "defineProperty k v ps =
     (if k \<in> fst ` set ps then map (\<lambda>(k', v'). if k' = k then (k', v) else (k', v')) ps
      else insertProperty k v ps)"

subsection \<open>Serialisation\<close>

definition hexDigit :: "nat \<Rightarrow> jschar" where
  "hexDigit n = (if n < 10 then of_nat (48 + n) else of_nat (87 + n))"

text \<open>\<open>\uXXXX\<close> with lower-case digits.\<close>

definition unicodeEscape :: "jschar \<Rightarrow> jsstring" where
  "unicodeEscape c =
     [0x5C, 0x75, hexDigit (unat c div 4096), hexDigit (unat c div 256 mod 16),
      hexDigit (unat c div 16 mod 16), hexDigit (unat c mod 16)]"

definition isHighSurrogate :: "jschar \<Rightarrow> bool" where
  "isHighSurrogate c \<longleftrightarrow> 0xD800 \<le> c \<and> c \<le> 0xDBFF"

definition isLowSurrogate :: "jschar \<Rightarrow> bool" where
  "isLowSurrogate c \<longleftrightarrow> 0xDC00 \<le> c \<and> c \<le> 0xDFFF"

text \<open>
  \<open>QuoteJSONString\<close> without the enclosing quotes: the quote, the backslash and the
  control characters are escaped, a surrogate that is not part of a pair is written as
  \<open>\uXXXX\<close>, everything else stands for itself.
\<close>

fun quoteChars :: "jsstring \<Rightarrow> jsstring" where
  "quoteChars [] = []"
| "quoteChars (c # cs) =
     (if c = 0x22 then [0x5C, 0x22] @ quoteChars cs
      else if c = 0x5C then [0x5C, 0x5C] @ quoteChars cs
      else if c = 0x08 then [0x5C, 0x62] @ quoteChars cs
      else if c = 0x09 then [0x5C, 0x74] @ quoteChars cs
      else if c = 0x0A then [0x5C, 0x6E] @ quoteChars cs
      else if c = 0x0C then [0x5C, 0x66] @ quoteChars cs
      else if c = 0x0D then [0x5C, 0x72] @ quoteChars cs
      else if c < 0x20 then unicodeEscape c @ quoteChars cs
      else if isHighSurrogate c then
        (case cs of
           [] \<Rightarrow> unicodeEscape c
         | d # ds \<Rightarrow>
             if isLowSurrogate d then c # d # quoteChars ds
             else unicodeEscape c @ quoteChars cs)
      else if isLowSurrogate c then unicodeEscape c @ quoteChars cs
      else c # quoteChars cs)"

definition quoteJSONString :: "jsstring \<Rightarrow> jsstring" where
  "quoteJSONString s = [0x22] @ quoteChars s @ [0x22]"

subsection \<open>Parsing\<close>

definition isJSONWhiteSpace :: "jschar \<Rightarrow> bool" where
  "isJSONWhiteSpace c \<longleftrightarrow> c = 0x20 \<or> c = 0x09 \<or> c = 0x0A \<or> c = 0x0D"

definition skipWhiteSpace :: "jsstring \<Rightarrow> jsstring" where
  "skipWhiteSpace s = dropWhile isJSONWhiteSpace s"

definition hexValue :: "jschar \<Rightarrow> nat option" where
  "hexValue c =
     (if 0x30 \<le> c \<and> c \<le> 0x39 then Some (unat c - 48)
      else if 0x61 \<le> c \<and> c \<le> 0x66 then Some (unat c - 87)
      else if 0x41 \<le> c \<and> c \<le> 0x46 then Some (unat c - 55)
      else None)"

text \<open>The character a one-letter escape stands for.\<close>

definition simpleEscape :: "jschar \<Rightarrow> jschar option" where
  "simpleEscape e =
     (if e = 0x22 then Some 0x22 else if e = 0x5C then Some 0x5C
      else if e = 0x2F then Some 0x2F else if e = 0x62 then Some 0x08
      else if e = 0x66 then Some 0x0C else if e = 0x6E then Some 0x0A
      else if e = 0x72 then Some 0x0D else if e = 0x74 then Some 0x09
      else None)"

text \<open>
  The characters of a string literal after its opening quote, up to the closing quote:
  the string and the rest of the input.
\<close>

fun parseChars :: "jsstring \<Rightarrow> (jsstring \<times> jsstring) option" where
  "parseChars [] = None"
| "parseChars (c # cs) =
     (if c = 0x22 then Some ([], cs)
      else if c = 0x5C then
        (case cs of
           [] \<Rightarrow> None
         | e # r \<Rightarrow>
             if e = 0x75 then
               (case r of
                  h1 # h2 # h3 # h4 # r' \<Rightarrow>
                    (case (hexValue h1, hexValue h2, hexValue h3, hexValue h4) of
                       (Some a, Some b, Some c', Some d) \<Rightarrow>
                         (case parseChars r' of
                            None \<Rightarrow> None
                          | Some (s, t) \<Rightarrow> Some (of_nat (4096 * a + 256 * b + 16 * c' + d) # s, t))
                     | _ \<Rightarrow> None)
                | _ \<Rightarrow> None)
             else
               (case simpleEscape e of
                  None \<Rightarrow> None
                | Some x \<Rightarrow>
                    (case parseChars r of None \<Rightarrow> None | Some (s, t) \<Rightarrow> Some (x # s, t))))
      else if c < 0x20 then None
      else (case parseChars cs of None \<Rightarrow> None | Some (s, t) \<Rightarrow> Some (c # s, t)))"

text \<open>
  A number literal: an optional minus, an integer part without leading zero, an
  optional fraction and an optional exponent, each with at least one digit.
\<close>

definition parseNumber :: "jsstring \<Rightarrow> (jsnumber \<times> jsstring) option" where
  "parseNumber s =
     (let neg = (take 1 s = [0x2D]);
          u = (if neg then drop 1 s else s);
          ip = takeWhile isDigit u;
          r1 = dropWhile isDigit u;
          hasFrac = (take 1 r1 = [0x2E]);
          fp = (if hasFrac then takeWhile isDigit (drop 1 r1) else []);
          r2 = (if hasFrac then dropWhile isDigit (drop 1 r1) else r1);
          hasExp = (take 1 r2 = [0x65] \<or> take 1 r2 = [0x45]);
          r3 = (if hasExp then drop 1 r2 else r2);
          eneg = (take 1 r3 = [0x2D]);
          r4 = (if hasExp \<and> (take 1 r3 = [0x2D] \<or> take 1 r3 = [0x2B]) then drop 1 r3 else r3);
          ep = (if hasExp then takeWhile isDigit r4 else []);
          r5 = (if hasExp then dropWhile isDigit r4 else r2)
      in if ip = [] \<or> (1 < length ip \<and> hd ip = 0x30) \<or> (hasFrac \<and> fp = []) \<or> (hasExp \<and> ep = [])
         then None
         else Some (toNumber neg (digitsValue (ip @ fp))
                      ((if eneg then - digitsValue ep else digitsValue ep) - int (length fp)), r5))"

text \<open>
  A value at the head of the input, and the rest of the input. \<open>parseElements\<close> reads the
  elements of an array up to its closing bracket, \<open>parseMembers\<close> the members of an
  object up to its closing brace; a later member with the same key replaces the value
  of the earlier one. Every value takes at least one character; the tests on lengths
  are what the termination proof needs, and they always hold.
\<close>

function parseValue :: "jsstring \<Rightarrow> (json \<times> jsstring) option"
  and parseElements :: "jsstring \<Rightarrow> (json list \<times> jsstring) option"
  and parseMembers :: "jsstring \<Rightarrow> ((jsstring \<times> json) list \<times> jsstring) option"
where
  "parseValue s =
     (case s of
        [] \<Rightarrow> None
      | c # r \<Rightarrow>
          if c = 0x7B then
            (if take 1 (skipWhiteSpace r) = [0x7D] then Some (JObject [], drop 1 (skipWhiteSpace r))
             else case parseMembers (skipWhiteSpace r) of
                    None \<Rightarrow> None
                  | Some (ms, t) \<Rightarrow> Some (JObject (foldl (\<lambda>ps (k, v). defineProperty k v ps) [] ms), t))
          else if c = 0x5B then
            (if take 1 (skipWhiteSpace r) = [0x5D] then Some (JArray [], drop 1 (skipWhiteSpace r))
             else case parseElements (skipWhiteSpace r) of
                    None \<Rightarrow> None
                  | Some (vs, t) \<Rightarrow> Some (JArray vs, t))
          else if c = 0x22 then
            (case parseChars r of None \<Rightarrow> None | Some (x, t) \<Rightarrow> Some (JString x, t))
          else if take 4 s = js ''true'' then Some (JBool True, drop 4 s)
          else if take 5 s = js ''false'' then Some (JBool False, drop 5 s)
          else if take 4 s = js ''null'' then Some (JNull, drop 4 s)
          else (case parseNumber s of None \<Rightarrow> None | Some (n, t) \<Rightarrow> Some (JNumber n, t)))"
| "parseElements s =
     (case parseValue s of
        None \<Rightarrow> None
      | Some (v, r) \<Rightarrow>
          if length r < length s then
            (case skipWhiteSpace r of
               [] \<Rightarrow> None
             | d # t \<Rightarrow>
                 if d = 0x5D then Some ([v], t)
                 else if d = 0x2C then
                   (case parseElements (skipWhiteSpace t) of
                      None \<Rightarrow> None
                    | Some (vs, u) \<Rightarrow> Some (v # vs, u))
                 else None)
          else None)"
| "parseMembers s =
     (case s of
        [] \<Rightarrow> None
      | q # r \<Rightarrow>
          if q = 0x22 then
            (case parseChars r of
               None \<Rightarrow> None
             | Some (k, r1) \<Rightarrow>
                 if length r1 \<le> length r \<and> take 1 (skipWhiteSpace r1) = [0x3A] then
                   (case parseValue (skipWhiteSpace (drop 1 (skipWhiteSpace r1))) of
                      None \<Rightarrow> None
                    | Some (v, r2) \<Rightarrow>
                        if length r2 < length r then
                          (case skipWhiteSpace r2 of
                             [] \<Rightarrow> None
                           | d # t \<Rightarrow>
                               if d = 0x7D then Some ([(k, v)], t)
                               else if d = 0x2C then
                                 (case parseMembers (skipWhiteSpace t) of
                                    None \<Rightarrow> None
                                  | Some (ms, u) \<Rightarrow> Some ((k, v) # ms, u))
                               else None)
                        else None)
                 else None)
          else None)"
  by pat_completeness auto
termination
proof (relation "measures [\<lambda>x. case x of Inl s \<Rightarrow> length s | Inr (Inl s) \<Rightarrow> length s | Inr (Inr s) \<Rightarrow> length s,
                            \<lambda>x. case x of Inl s \<Rightarrow> 0 | Inr (Inl s) \<Rightarrow> 1 | Inr (Inr s) \<Rightarrow> 1]",
       goal_cases)
  case 1
  show ?case by simp
next
  case (2 s c r)
  have "length (skipWhiteSpace r) \<le> length r"
    unfolding skipWhiteSpace_def by (rule length_dropWhile_le)
  with 2 show ?case by simp
next
  case (3 s c r)
  have "length (skipWhiteSpace r) \<le> length r"
    unfolding skipWhiteSpace_def by (rule length_dropWhile_le)
  with 3 show ?case by simp
next
  case (4 s)
  show ?case by simp
next
  case (5 s x2 v r d t)
  have "length (skipWhiteSpace t) \<le> length t"
    unfolding skipWhiteSpace_def by (rule length_dropWhile_le)
  moreover have "length (skipWhiteSpace r) \<le> length r"
    unfolding skipWhiteSpace_def by (rule length_dropWhile_le)
  ultimately show ?case using 5 by simp
next
  case (6 s q r x2 k r1)
  have "length (skipWhiteSpace (drop 1 (skipWhiteSpace r1))) \<le> length (drop 1 (skipWhiteSpace r1))"
    unfolding skipWhiteSpace_def by (rule length_dropWhile_le)
  moreover have "length (skipWhiteSpace r1) \<le> length r1"
    unfolding skipWhiteSpace_def by (rule length_dropWhile_le)
  ultimately show ?case using 6 by (simp, arith)
next
  case (7 s q r x2 k r1 x2a v r2 d t)
  have "length (skipWhiteSpace t) \<le> length t"
    unfolding skipWhiteSpace_def by (rule length_dropWhile_le)
  moreover have "length (skipWhiteSpace r2) \<le> length r2"
    unfolding skipWhiteSpace_def by (rule length_dropWhile_le)
  ultimately show ?case using 7 by simp
qed

declare parseValue.simps [simp del] parseElements.simps [simp del] parseMembers.simps [simp del]

text \<open>
  \<open>JSON.parse(text)\<close>: one value between optional white space; \<open>None\<close> is the
  \<open>SyntaxError\<close>.
\<close>

definition JSON_parse :: "jsstring \<Rightarrow> json option" where
  "JSON_parse text =
     (case parseValue (skipWhiteSpace text) of
        None \<Rightarrow> None
      | Some (v, r) \<Rightarrow> if skipWhiteSpace r = [] then Some v else None)"

section \<open>The autosave store\<close>

subsection \<open>The form as the autosave functions see it\<close>

text \<open>
  \<open>saveFormData\<close> and \<open>loadFormData\<close> look at a form in two ways. \<open>new FormData(form)\<close> goes
  through the controls that the form owns: the \<open>input\<close>, \<open>textarea\<close>, \<open>select\<close> and \<open>button\<close>
  elements whose form owner it is, those of its subtree and those outside it (attached
  through a \<open>form\<close> attribute, or by the parser). \<open>form.querySelector\<close> goes through the
  subtree of the form and finds every element that carries the name, whatever it is. The
  members of a form are the elements that either of the two can reach, in tree order:
  \<^item> \<open>Owned\<close>: a control of the subtree whose form owner is the form;
  \<^item> \<open>Attached\<close>: a control outside the subtree whose form owner is the form;
  \<^item> \<open>Unowned\<close>: a control of the subtree with another form owner, or none;
  \<^item> \<open>Other name type\<close>: any other element of the subtree, with its \<open>name\<close> attribute and
    its \<open>type\<close> property (empty when the property is not a string: the source only compares
    it with \<open>file\<close>).

  Controls with a \<open>dirname\<close> attribute or below a \<open>datalist\<close>, a \<open>textarea\<close> with hard
  wrapping, and custom elements are not covered.
\<close>

datatype member = Owned field | Attached field | Unowned field | Other jsstring jsstring

type_synonym form_members = "member list"

fun inSubtree :: "member \<Rightarrow> bool" where
  "inSubtree (Attached c) = False"
| "inSubtree m = True"

fun nameOf :: "member \<Rightarrow> jsstring" where
  "nameOf (Owned c) = f_name c"
| "nameOf (Attached c) = f_name c"
| "nameOf (Unowned c) = f_name c"
| "nameOf (Other name type) = name"

fun typeOf :: "member \<Rightarrow> jsstring" where
  "typeOf (Owned c) = f_type c"
| "typeOf (Attached c) = f_type c"
| "typeOf (Unowned c) = f_type c"
| "typeOf (Other name type) = type"

text \<open>The control that a member is, if it is one.\<close>

fun controlOf :: "member \<Rightarrow> field option" where
  "controlOf (Owned c) = Some c"
| "controlOf (Attached c) = Some c"
| "controlOf (Unowned c) = Some c"
| "controlOf (Other name type) = None"

text \<open>The same member with its control replaced.\<close>

fun withControl :: "member \<Rightarrow> field \<Rightarrow> member" where
  "withControl (Owned c) c' = Owned c'"
| "withControl (Attached c) c' = Attached c'"
| "withControl (Unowned c) c' = Unowned c'"
| "withControl (Other name type) c' = Other name type"

text \<open>
  The selector \<open>`[name="${key}"]`\<close> is the plain test on the \<open>name\<close> attribute as long as the
  key is not empty and has no quote, backslash, line break or NUL and no surrogate; other
  keys change the selector itself and are left out of the model.
\<close>

definition plainName :: "jsstring \<Rightarrow> bool" where
  "plainName k \<longleftrightarrow>
     k \<noteq> [] \<and>
     (\<forall>c \<in> set k. c \<noteq> 0x22 \<and> c \<noteq> 0x5C \<and> c \<noteq> 0x0A \<and> c \<noteq> 0x0C \<and> c \<noteq> 0x0D \<and> c \<noteq> 0
                    \<and> \<not> isHighSurrogate c \<and> \<not> isLowSurrogate c)"

text \<open>
  \<open>form.querySelector(`[name="${key}"]`)\<close> for a plain key: the first element of the
  subtree, in tree order, whose \<open>name\<close> attribute is the key, letter case included; \<open>None\<close>
  is \<open>null\<close>.
\<close>

definition querySelector :: "form_members \<Rightarrow> jsstring \<Rightarrow> member option" where
  "querySelector ms key = find (\<lambda>m. inSubtree m \<and> nameOf m = key) ms"

subsection \<open>Saving\<close>

text \<open>
  The value of a \<open>FormData\<close> entry: a string, or the \<open>File\<close> object of a file input (known
  here by its name).
\<close>

datatype entry_value = Str jsstring | File jsstring

text \<open>
  Names and string values enter a \<open>FormData\<close> as scalar value strings: a surrogate that is
  not part of a pair is replaced by U+FFFD. Line breaks stay as they are (the HTML
  standard normalises them when a form is submitted, not when the entries are built).
\<close>

fun toScalarValueString :: "jsstring \<Rightarrow> jsstring" where
  "toScalarValueString [] = []"
| "toScalarValueString [c] = (if isHighSurrogate c \<or> isLowSurrogate c then [0xFFFD] else [c])"
| "toScalarValueString (c # d # s) =
     (if isHighSurrogate c then
        (if isLowSurrogate d then c # d # toScalarValueString s
         else 0xFFFD # toScalarValueString (d # s))
      else if isLowSurrogate c then 0xFFFD # toScalarValueString (d # s)
      else c # toScalarValueString (d # s))"

fun createEntry :: "jsstring \<Rightarrow> entry_value \<Rightarrow> jsstring \<times> entry_value" where
  "createEntry name (Str s) = (toScalarValueString name, Str (toScalarValueString s))"
| "createEntry name (File n) = (toScalarValueString name, File n)"

definition asciiLowercase :: "jsstring \<Rightarrow> jsstring" where
  "asciiLowercase s = map (\<lambda>c. if 0x41 \<le> c \<and> c \<le> 0x5A then c + 0x20 else c) s"

text \<open>
  The entries that \<open>new FormData(form)\<close> takes from one control of the form: nothing for a
  disabled or unnamed control or for a button (there is no submitter), the value of a
  checkbox or radio button only when it is checked, the value of every selected option of
  a \<open>select\<close> that is not disabled, one \<open>File\<close> per selected file of a file input (an empty
  \<open>File\<close> when none is selected), \<open>UTF-8\<close> for a hidden input named \<open>_charset_\<close>, and the
  value otherwise.
\<close>

definition entriesOfControl :: "field \<Rightarrow> (jsstring \<times> entry_value) list" where
  "entriesOfControl c =
     (if f_disabled c \<or> f_name c = [] then []
      else if f_type c \<in> {js ''submit'', js ''button'', js ''reset'', js ''image''} then []
      else if f_type c \<in> {js ''checkbox'', js ''radio''}
        then (if f_checked c then [createEntry (f_name c) (Str (f_value c))] else [])
      else if f_type c \<in> {js ''select-one'', js ''select-multiple''}
        then map (\<lambda>opt. createEntry (f_name c) (Str (o_value opt)))
               (filter (\<lambda>opt. o_selected opt \<and> \<not> o_disabled opt) (f_options c))
      else if f_type c = js ''file''
        then (if f_files c = [] then [createEntry (f_name c) (File [])]
              else map (\<lambda>n. createEntry (f_name c) (File n)) (f_files c))
      else if f_type c = js ''hidden'' \<and> asciiLowercase (f_name c) = js ''_charset_''
        then [createEntry (f_name c) (Str (js ''UTF-8''))]
      else [createEntry (f_name c) (Str (f_value c))])"

text \<open>The entries of a member: those of its control when the form owns it.\<close>

fun entriesOfMember :: "member \<Rightarrow> (jsstring \<times> entry_value) list" where
  "entriesOfMember (Owned c) = entriesOfControl c"
| "entriesOfMember (Attached c) = entriesOfControl c"
| "entriesOfMember (Unowned c) = []"
| "entriesOfMember (Other name type) = []"

definition formDataEntries :: "form_members \<Rightarrow> (jsstring \<times> entry_value) list" where
  "formDataEntries ms = concat (map entriesOfMember ms)"

text \<open>
  \<open>data[key] = value\<close> on the plain object \<open>data\<close>. The key \<open>__proto__\<close> reaches the setter
  of \<open>Object.prototype\<close>, which creates no own property.
\<close>

definition assign :: "jsstring \<Rightarrow> 'v \<Rightarrow> (jsstring \<times> 'v) list \<Rightarrow> (jsstring \<times> 'v) list" where
  "assign k v ps = (if k = js ''__proto__'' then ps else defineProperty k v ps)"

text \<open>
  What a pass of the model may end in: a value, an exception, or a step outside the
  modelled fragment.
\<close>

datatype 'a outcome = Done 'a | Thrown jserror 'a | NotModelled

text \<open>
  The loop of \<open>saveFormData\<close>: an entry is kept when the first element of the subtree with
  that name is not of type \<open>file\<close>; \<open>.type\<close> of \<open>null\<close> is a \<open>TypeError\<close>. A \<open>File\<close> assigned to
  \<open>__proto__\<close> would become the prototype of \<open>data\<close>, which is not modelled.
\<close>

fun collect ::
  "form_members \<Rightarrow> (jsstring \<times> entry_value) list \<Rightarrow> (jsstring \<times> entry_value) list
     \<Rightarrow> (jsstring \<times> entry_value) list outcome" where
  "collect ms [] data = Done data"
| "collect ms ((key, v) # entries) data =
     (if \<not> plainName key then NotModelled
      else case querySelector ms key of
             None \<Rightarrow> Thrown TypeError data
           | Some el \<Rightarrow>
               if typeOf el \<noteq> js ''file'' then
                 (case v of
                    Str s \<Rightarrow> collect ms entries (assign key v data)
                  | File n \<Rightarrow>
                      if key = js ''__proto__'' then NotModelled
                      else collect ms entries (assign key v data))
               else collect ms entries data)"

text \<open>\<open>JSON.stringify(data)\<close>: a \<open>File\<close> has no enumerable property of its own and no \<open>toJSON\<close>.\<close>

fun stringifyValue :: "entry_value \<Rightarrow> jsstring" where
  "stringifyValue (Str s) = quoteJSONString s"
| "stringifyValue (File n) = js ''{}''"

fun stringifyMembers :: "(jsstring \<times> entry_value) list \<Rightarrow> jsstring" where
  "stringifyMembers [] = []"
| "stringifyMembers [(k, v)] = quoteJSONString k @ [0x3A] @ stringifyValue v"
| "stringifyMembers ((k, v) # p # ps) =
     quoteJSONString k @ [0x3A] @ stringifyValue v @ [0x2C] @ stringifyMembers (p # ps)"

definition JSON_stringify :: "(jsstring \<times> entry_value) list \<Rightarrow> jsstring" where
  "JSON_stringify data = [0x7B] @ stringifyMembers data @ [0x7D]"

text \<open>
  \<open>saveFormData(form, formId)\<close>; the log line starts with U+1F4DD. The store is taken to
  have room for the payload.
\<close>

definition saveFormData :: "form_members \<Rightarrow> jsstring \<Rightarrow> page \<Rightarrow> page outcome" where
  "saveFormData fm formId pg =
     (case collect fm (formDataEntries fm) [] of
        NotModelled \<Rightarrow> NotModelled
      | Thrown e _ \<Rightarrow> Thrown e pg
      | Done data \<Rightarrow>
          Done (pg\<lparr>localStorage := (localStorage pg)(storageKey formId \<mapsto> JSON_stringify data),
                   console := console pg @
                     [ConsoleLog ([0xD83D, 0xDCDD] @ js '' Form data saved: '' @ formId)]\<rparr>))"

subsection \<open>Loading\<close>

text \<open>Decimal digits of a natural number, for the keys of array elements.\<close>

fun decimal :: "nat \<Rightarrow> jsstring" where
  "decimal n = (if n < 10 then [of_nat (48 + n)] else decimal (n div 10) @ [of_nat (48 + n mod 10)])"

declare decimal.simps [simp del]

text \<open>\<open>Object.entries(data)\<close>; \<open>null\<close> cannot be converted to an object.\<close>

fun entriesOf :: "json \<Rightarrow> jserror + (jsstring \<times> json) list" where
  "entriesOf JNull = Inl TypeError"
| "entriesOf (JBool b) = Inr []"
| "entriesOf (JNumber n) = Inr []"
| "entriesOf (JString s) = Inr (zip (map decimal [0..<length s]) (map (\<lambda>c. JString [c]) s))"
| "entriesOf (JArray vs) = Inr (zip (map decimal [0..<length vs]) vs)"
| "entriesOf (JObject ps) = Inr ps"

text \<open>The test \<open>if (... && value)\<close>.\<close>

fun truthy :: "json \<Rightarrow> bool" where
  "truthy JNull = False"
| "truthy (JBool b) = b"
| "truthy (JNumber n) = (case n of Finite m k \<Rightarrow> m \<noteq> 0 | NaN \<Rightarrow> False | _ \<Rightarrow> True)"
| "truthy (JString s) = (s \<noteq> [])"
| "truthy (JArray vs) = True"
| "truthy (JObject ps) = True"

text \<open>
  The string that the setter of \<open>value\<close> is given: \<open>value\<close> converted with \<open>ToString\<close>. An
  object read from JSON has no callable property of its own, so one with a key \<open>toString\<close>
  hides \<open>Object.prototype.toString\<close> and the conversion throws a \<open>TypeError\<close> (with or
  without a key \<open>valueOf\<close>: the inherited \<open>valueOf\<close> returns the object itself). Any other
  object gives \<open>[object Object]\<close>, \<open>toString\<close> being tried first. \<open>None\<close>: the decimal form
  of a number and the joined elements of an array are not modelled.
\<close>

fun toString :: "json \<Rightarrow> (jserror + jsstring) option" where
  "toString JNull = Some (Inr (js ''null''))"
| "toString (JBool b) = Some (Inr (if b then js ''true'' else js ''false''))"
| "toString (JNumber n) = None"
| "toString (JString s) = Some (Inr s)"
| "toString (JArray vs) = None"
| "toString (JObject ps) =
     (if js ''toString'' \<in> fst ` set ps then Some (Inl TypeError)
      else Some (Inr (js ''[object Object]'')))"

text \<open>
  What the value sanitisation of the input types and the \<open>textarea\<close> use: line breaks
  are stripped, ASCII white space is stripped at both ends, \<open>CR LF\<close> and \<open>CR\<close> become \<open>LF\<close>.
\<close>

definition stripNewlines :: "jsstring \<Rightarrow> jsstring" where
  "stripNewlines s = filter (\<lambda>c. c \<noteq> 0x0A \<and> c \<noteq> 0x0D) s"

definition isAsciiWhitespace :: "jschar \<Rightarrow> bool" where
  "isAsciiWhitespace c \<longleftrightarrow> c = 0x09 \<or> c = 0x0A \<or> c = 0x0C \<or> c = 0x0D \<or> c = 0x20"

definition stripAsciiWhitespace :: "jsstring \<Rightarrow> jsstring" where
  "stripAsciiWhitespace s = rev (dropWhile isAsciiWhitespace (rev (dropWhile isAsciiWhitespace s)))"

fun normalizeNewlines :: "jsstring \<Rightarrow> jsstring" where
  "normalizeNewlines [] = []"
| "normalizeNewlines [c] = (if c = 0x0D then [0x0A] else [c])"
| "normalizeNewlines (c # d # s) =
     (if c = 0x0D then (if d = 0x0A then 0x0A # normalizeNewlines s
                        else 0x0A # normalizeNewlines (d # s))
      else c # normalizeNewlines (d # s))"

text \<open>
  A valid floating-point number: an optional minus, digits with an optional fraction or a
  fraction alone, and an optional exponent.
\<close>

definition Opt :: "regex \<Rightarrow> regex" where
  "Opt r = Alt Empty r"

definition floatRegex :: regex where
  "floatRegex =
     Seq (Opt (Lit 0x2D))
      (Seq (Alt (Seq (OneOrMore (Class isDigit)) (Opt (Seq (Lit 0x2E) (OneOrMore (Class isDigit)))))
                (Seq (Lit 0x2E) (OneOrMore (Class isDigit))))
           (Opt (Seq (Class (\<lambda>c. c = 0x65 \<or> c = 0x45))
                  (Seq (Opt (Class (\<lambda>c. c = 0x2D \<or> c = 0x2B))) (OneOrMore (Class isDigit))))))"

text \<open>
  \<open>select.value = v\<close>: every option is deselected, then the first option whose value is \<open>v\<close>,
  if there is one, is selected.
\<close>

fun selectFirst :: "jsstring \<Rightarrow> select_option list \<Rightarrow> select_option list" where
  "selectFirst v [] = []"
| "selectFirst v (opt # opts) =
     (if o_value opt = v then opt\<lparr>o_selected := True\<rparr> # map (\<lambda>x. x\<lparr>o_selected := False\<rparr>) opts
      else opt\<lparr>o_selected := False\<rparr> # selectFirst v opts)"

text \<open>
  \<open>field.value = v\<close> on a control, by its type. The text-like inputs keep the string
  without its line breaks, \<open>url\<close> also without white space at the ends, and so does
  \<open>email\<close> (what an \<open>email\<close> input makes of a string with a comma or a line break depends
  on its \<open>multiple\<close> attribute and is not modelled), a
  \<open>number\<close> input keeps a valid floating-point number and nothing else, the inputs whose
  \<open>value\<close> is their attribute keep the string as it is, a file input accepts the empty
  string only and throws \<open>InvalidStateError\<close> otherwise, a \<open>textarea\<close> keeps the string with
  its line breaks normalised, and a \<open>select\<close> selects the matching option, its value being
  empty afterwards when there is none. The sanitisation of the date and time inputs, of
  \<open>range\<close> and of \<open>color\<close> is not modelled.
\<close>

definition assignValue :: "field \<Rightarrow> jsstring \<Rightarrow> field outcome" where
  "assignValue c v =
     (if f_type c \<in> {js ''text'', js ''search'', js ''tel'', js ''password''}
        then Done (c\<lparr>f_value := stripNewlines v\<rparr>)
      else if f_type c = js ''url''
        then Done (c\<lparr>f_value := stripAsciiWhitespace (stripNewlines v)\<rparr>)
      else if f_type c = js ''email''
        then (if 0x2C \<in> set v \<or> 0x0A \<in> set v \<or> 0x0D \<in> set v then NotModelled
              else Done (c\<lparr>f_value := stripAsciiWhitespace v\<rparr>))
      else if f_type c = js ''number''
        then Done (c\<lparr>f_value := (if test floatRegex v then v else [])\<rparr>)
      else if f_type c \<in> {js ''hidden'', js ''checkbox'', js ''radio'', js ''submit'', js ''image'',
                           js ''reset'', js ''button''}
        then Done (c\<lparr>f_value := v\<rparr>)
      else if f_type c = js ''file''
        then (if v = [] then Done (c\<lparr>f_value := [], f_files := []\<rparr>)
              else Thrown InvalidStateError c)
      else if f_type c = js ''textarea''
        then Done (c\<lparr>f_value := normalizeNewlines v\<rparr>)
      else if f_type c \<in> {js ''select-one'', js ''select-multiple''}
        then Done (c\<lparr>f_options := selectFirst v (f_options c),
                      f_value := (if v \<in> o_value ` set (f_options c) then v else [])\<rparr>)
      else NotModelled)"

text \<open>The members with the first element of the subtree named \<open>key\<close> replaced.\<close>

fun replaceFirst :: "jsstring \<Rightarrow> member \<Rightarrow> form_members \<Rightarrow> form_members" where
  "replaceFirst key m' [] = []"
| "replaceFirst key m' (m # ms) =
     (if inSubtree m \<and> nameOf m = key then m' # ms else m # replaceFirst key m' ms)"

text \<open>
  The callback of \<open>Object.entries(data).forEach\<close>, entry after entry: when the subtree has
  an element of that name and the value is truthy, the value is assigned to the \<open>value\<close>
  of the first such element. An exception ends the loop and leaves the earlier
  assignments in place. What the assignment does to an element that is not a control
  is not modelled. The \<open>input\<close> event dispatched after an assignment reaches
  \<open>clearFieldError\<close> and the floating labels, which leave the controls alone (no control
  of the form carries the class \<open>field-error\<close> or lies below an element that does).
\<close>

fun restore :: "(jsstring \<times> json) list \<Rightarrow> form_members \<Rightarrow> form_members outcome" where
  "restore [] ms = Done ms"
| "restore ((key, v) # entries) ms =
     (if \<not> plainName key then NotModelled
      else case querySelector ms key of
             None \<Rightarrow> restore entries ms
           | Some el \<Rightarrow>
               if truthy v then
                 (case controlOf el of
                    None \<Rightarrow> NotModelled
                  | Some c \<Rightarrow>
                      (case toString v of
                         None \<Rightarrow> NotModelled
                       | Some (Inl e) \<Rightarrow> Thrown e ms
                       | Some (Inr x) \<Rightarrow>
                           (case assignValue c x of
                              NotModelled \<Rightarrow> NotModelled
                            | Thrown e c' \<Rightarrow> Thrown e ms
                            | Done c' \<Rightarrow> restore entries (replaceFirst key (withControl el c') ms))))
               else restore entries ms)"

text \<open>
  \<open>loadFormData(form, formId)\<close>; the log line starts with U+1F4CB. An empty stored string
  is taken for no data at all. Whatever is thrown between \<open>try\<close> and \<open>catch\<close> is logged,
  and the function returns.
\<close>

definition loadFormData :: "form_members \<Rightarrow> jsstring \<Rightarrow> page \<Rightarrow> (form_members \<times> page) outcome" where
  "loadFormData fm formId pg =
     (case localStorage pg (storageKey formId) of
        None \<Rightarrow> Done (fm, pg)
      | Some savedData \<Rightarrow>
          if savedData = [] then Done (fm, pg)
          else
            (case JSON_parse savedData of
               None \<Rightarrow>
                 Done (fm, pg\<lparr>console := console pg @
                   [ConsoleError (js ''Error loading form data:'') SyntaxError]\<rparr>)
             | Some data \<Rightarrow>
                 (case entriesOf data of
                    Inl e \<Rightarrow>
                      Done (fm, pg\<lparr>console := console pg @
                        [ConsoleError (js ''Error loading form data:'') e]\<rparr>)
                  | Inr entries \<Rightarrow>
                      (case restore entries fm of
                         NotModelled \<Rightarrow> NotModelled
                       | Thrown e fm' \<Rightarrow>
                           Done (fm', pg\<lparr>console := console pg @
                             [ConsoleError (js ''Error loading form data:'') e]\<rparr>)
                       | Done fm' \<Rightarrow>
                           Done (fm', pg\<lparr>console := console pg @
                             [ConsoleLog ([0xD83D, 0xDCCB] @ js '' Form data loaded: '' @ formId)]\<rparr>)))))"


section \<open>Properties of field validation\<close>


lemma Times9: "Times 9 r = Seq r (Seq r (Seq r (Seq r (Seq r (Seq r (Seq r (Seq r (Seq r Empty))))))))"
  by (simp add: eval_nat_numeral)

lemmas rule_defs = requiredRule_def emailRule_def phoneRule_def
  password1Rule_def password2Rule_def priceRule_def

lemmas evs = js_def isWhiteSpace_def trim_def emailRegex_def phoneRegex_def OneOrMore_def Lit_def
  isDigit_def notSpaceAt_def Times9 control_def rule_defs fieldName_def elements_def querySelectorName_def















text \<open>
  Claim C4. A required field with an empty trimmed value fails with
  \<open><field name> is required\<close>, the name having its underscores replaced by spaces. The source
  calls \<open>fieldName.replace('_', ' ')\<close>, which replaces the first underscore only: for the
  required, empty field \<open>price_per_day\<close> the message is \<open>price per_day is required\<close> where
  the claim has \<open>price per day is required\<close>.
\<close>

theorem required_message_first_underscore_only:
  "validateField_locals [] ((control ''text'' ''price_per_day'' '''')\<lparr>f_required := True\<rparr>)
     = \<lparr>isValid = False, errorMessage = js ''price per_day is required''\<rparr>
   \<and> js ''price per_day is required'' \<noteq> js ''price per day is required''"
  by (simp add: validateField_locals_def evs)













section \<open>Properties of the error annotations\<close>

lemma treeOrder_append: "treeOrder (xs @ ys) = treeOrder xs @ treeOrder ys"
  by (induction xs rule: treeOrder.induct) simp_all

lemma removeFirstError_None:
  "removeFirstError es = None \<longleftrightarrow> filter isFieldError (treeOrder es) = []"
  by (induction es rule: removeFirstError.induct)
     (auto simp: isFieldError_def split: option.splits)

lemma removeFirstError_Some:
  "removeFirstError es = Some es' \<Longrightarrow>
     length (filter isFieldError (treeOrder es')) < length (filter isFieldError (treeOrder es))"
proof (induction es arbitrary: es' rule: removeFirstError.induct)
  case 1
  then show ?case by simp
next
  case (2 cl h cs es)
  show ?case
  proof (cases "js ''field-error'' \<in> set cl")
    case True
    with "2.prems" show ?thesis by (simp add: isFieldError_def)
  next
    case False
    show ?thesis
    proof (cases "removeFirstError cs")
      case (Some cs')
      with False "2.prems" "2.IH"(1) [of cs'] show ?thesis
        by (auto simp: isFieldError_def)
    next
      case None
      with False "2.prems" "2.IH"(2) show ?thesis
        by (auto simp: isFieldError_def split: option.splits)
    qed
  qed
qed

lemma error_class_names: "js ''field-error'' \<noteq> js ''error''" "js ''fas'' \<noteq> js ''field-error''"
  "js ''fa-exclamation-circle'' \<noteq> js ''field-error''"
  by (simp_all add: js_def)

lemma isFieldError_remove [simp]: "isFieldError (classList_remove (js ''error'') e) = isFieldError e"
  using error_class_names by (auto simp: isFieldError_def classList_remove_def)

lemma isFieldError_add [simp]: "isFieldError (classList_add (js ''error'') e) = isFieldError e"
  using error_class_names by (auto simp: isFieldError_def classList_add_def)

lemma children_remove [simp]: "children (classList_remove c e) = children e"
  by (simp add: classList_remove_def)

lemma children_add [simp]: "children (classList_add c e) = children e"
  by (simp add: classList_add_def)

lemma treeOrder_Cons: "treeOrder (e # es) = e # treeOrder (children e) @ treeOrder es"
  by (cases e) simp

lemma errorDiv_nodes:
  "filter isFieldError (treeOrder (parser (errorMarkup m))) = [] \<Longrightarrow>
     filter isFieldError (treeOrder [errorDiv parser m]) = [errorDiv parser m]"
  by (simp add: errorDiv_def isFieldError_def)

lemma errorNodes_Some:
  "siblings fd = Some (b, a) \<Longrightarrow> errorNodes fd =
     filter isFieldError (treeOrder b) @ filter isFieldError [self fd]
       @ filter isFieldError (treeOrder (children (self fd))) @ filter isFieldError (treeOrder a)"
  by (simp add: errorNodes_def treeOrder_append treeOrder_Cons)

lemma clear_ok:
  assumes "siblings fd = Some (b, a)" "\<not> isFieldError (self fd)" "length (errorNodes fd) \<le> 1"
  shows "\<exists>fd' b' a'. clearFieldError fd = Return () fd' \<and> siblings fd' = Some (b', a')
           \<and> \<not> isFieldError (self fd') \<and> errorNodes fd' = []"
proof -
  let ?n = "\<lambda>es. length (filter isFieldError (treeOrder es))"
  have sum: "?n b + ?n (children (self fd)) + ?n a \<le> 1"
    using assms by (simp add: errorNodes_Some)
  show ?thesis
  proof (cases "removeFirstError b")
    case (Some b')
    from removeFirstError_Some [OF Some] sum
    have z: "?n b' = 0" "?n (children (self fd)) = 0" "?n a = 0" by linarith+
    let ?fd' = "\<lparr>self = classList_remove (js ''error'') (self fd), siblings = Some (b', a)\<rparr>"
    have "clearFieldError fd = Return () ?fd'"
      using assms(1) Some by (simp add: clearFieldError_def)
    moreover have "errorNodes ?fd' = []"
      using z assms(2) by (simp add: errorNodes_Some [of ?fd' b' a])
    ultimately show ?thesis using assms(2) by auto
  next
    case None
    note nb = None
    then have zb: "?n b = 0" by (simp add: removeFirstError_None)
    show ?thesis
    proof (cases "removeFirstError (children (self fd))")
      case (Some cs')
      from removeFirstError_Some [OF Some] sum
      have z: "?n cs' = 0" "?n a = 0" by linarith+
      let ?f = "classList_remove (js ''error'') (self fd)"
      let ?fd' = "\<lparr>self = Element (classList ?f) (innerHTML ?f) cs', siblings = Some (b, a)\<rparr>"
      have nf: "\<not> isFieldError (Element (classList ?f) (innerHTML ?f) cs')"
        using assms(2) isFieldError_remove [of "self fd"] by (simp add: isFieldError_def)
      have "clearFieldError fd = Return () ?fd'"
        using assms(1,2) nb Some by (simp add: clearFieldError_def Let_def)
      moreover have "errorNodes ?fd' = []"
        using z zb nf by (simp add: errorNodes_Some [of ?fd' b a])
      ultimately show ?thesis using nf by auto
    next
      case None
      note nc = None
      then have zc: "?n (children (self fd)) = 0" by (simp add: removeFirstError_None)
      show ?thesis
      proof (cases "removeFirstError a")
        case (Some a')
        from removeFirstError_Some [OF Some] sum
        have z: "?n a' = 0" by linarith
        let ?fd' = "\<lparr>self = classList_remove (js ''error'') (self fd), siblings = Some (b, a')\<rparr>"
        have "clearFieldError fd = Return () ?fd'"
          using assms(1,2) nb nc Some by (simp add: clearFieldError_def)
        moreover have "errorNodes ?fd' = []"
          using z zb zc assms(2) by (simp add: errorNodes_Some [of ?fd' b a'])
        ultimately show ?thesis using assms(2) by auto
      next
        case None
        then have za: "?n a = 0" by (simp add: removeFirstError_None)
        let ?fd' = "\<lparr>self = classList_remove (js ''error'') (self fd), siblings = Some (b, a)\<rparr>"
        have "clearFieldError fd = Return () ?fd'"
          using assms(1,2) nb nc None by (simp add: clearFieldError_def)
        moreover have "errorNodes ?fd' = []"
          using za zb zc assms(2) by (simp add: errorNodes_Some [of ?fd' b a])
        ultimately show ?thesis using assms(2) by auto
      qed
    qed
  qed
qed

lemma show_ok:
  assumes "siblings fd = Some (b, a)" "\<not> isFieldError (self fd)" "length (errorNodes fd) \<le> 1"
    "filter isFieldError (treeOrder (parser (errorMarkup m))) = []"
  shows "\<exists>fd' b' a'. showFieldError parser fd m = Return () fd'
           \<and> siblings fd' = Some (b', a' @ [errorDiv parser m])
           \<and> \<not> isFieldError (self fd') \<and> errorNodes fd' = [errorDiv parser m]"
proof -
  from clear_ok [OF assms(1-3)] obtain fd1 b1 a1 where
    c: "clearFieldError fd = Return () fd1" "siblings fd1 = Some (b1, a1)"
       "\<not> isFieldError (self fd1)" "errorNodes fd1 = []"
    by blast
  let ?fd' = "\<lparr>self = classList_add (js ''error'') (self fd1),
              siblings = Some (b1, a1 @ [errorDiv parser m])\<rparr>"
  have s: "showFieldError parser fd m = Return () ?fd'"
    using c(1,2) by (simp add: showFieldError_def)
  have e: "errorNodes ?fd' = [errorDiv parser m]"
    using c(3,4) errorNodes_Some [OF c(2)] errorDiv_nodes [of parser m, OF assms(4)]
    by (simp add: errorNodes_Some [of ?fd' b1 "a1 @ [errorDiv parser m]"] treeOrder_append)
  from s e c(3) show ?thesis by auto
qed

lemma clear_noop:
  assumes "siblings fd = Some (b, a)" "errorNodes fd = []" "js ''error'' \<notin> set (classList (self fd))"
  shows "clearFieldError fd = Return () fd"
proof -
  have r: "classList_remove (js ''error'') (self fd) = self fd"
    using assms(3) by (cases "self fd") (auto simp add: classList_remove_def filter_id_conv)
  have z: "filter isFieldError (treeOrder b) = []" "\<not> isFieldError (self fd)"
    "filter isFieldError (treeOrder (children (self fd))) = []" "filter isFieldError (treeOrder a) = []"
    using assms(2) errorNodes_Some [OF assms(1)] by (auto split: if_splits)
  then have "removeFirstError b = None" "removeFirstError (children (self fd)) = None"
    "removeFirstError a = None"
    by (simp_all add: removeFirstError_None)
  with z(2) r assms(1) show ?thesis
    by (simp add: clearFieldError_def)
qed


lemma perform_ok:
  assumes "siblings fd = Some (b, a)" "\<not> isFieldError (self fd)" "length (errorNodes fd) \<le> 1"
    "\<forall>m. c = ShowFieldError m \<longrightarrow> filter isFieldError (treeOrder (parser (errorMarkup m))) = []"
  shows "\<exists>fd' b' a'. perform parser c fd = Return () fd' \<and> siblings fd' = Some (b', a')
           \<and> \<not> isFieldError (self fd') \<and> length (errorNodes fd') \<le> 1
           \<and> (\<forall>m. c = ShowFieldError m \<longrightarrow>
                  errorNodes fd' = [errorDiv parser m] \<and> (\<exists>a''. a' = a'' @ [errorDiv parser m]))
           \<and> (c = ClearFieldError \<longrightarrow> errorNodes fd' = [])"
proof (cases c)
  case (ShowFieldError m)
  with assms(4) have "filter isFieldError (treeOrder (parser (errorMarkup m))) = []" by simp
  from show_ok [of fd b a parser m, OF assms(1-3) this] ShowFieldError show ?thesis by fastforce
next
  case ClearFieldError
  from clear_ok [OF assms(1-3)] ClearFieldError show ?thesis by fastforce
qed

lemma performAll_ok:
  assumes "siblings fd = Some (b, a)" "\<not> isFieldError (self fd)" "length (errorNodes fd) \<le> 1"
    "\<forall>m. ShowFieldError m \<in> set cs \<longrightarrow> filter isFieldError (treeOrder (parser (errorMarkup m))) = []"
    "cs \<noteq> []"
  shows "\<exists>fd' b' a'. performAll parser cs fd = Return () fd' \<and> siblings fd' = Some (b', a')
           \<and> length (errorNodes fd') \<le> 1
           \<and> (\<forall>m. last cs = ShowFieldError m \<longrightarrow>
                  errorNodes fd' = [errorDiv parser m] \<and> (\<exists>a''. a' = a'' @ [errorDiv parser m]))
           \<and> (last cs = ClearFieldError \<longrightarrow> errorNodes fd' = [])"
  using assms
proof (induction cs arbitrary: fd b a)
  case Nil
  then show ?case by simp
next
  case (Cons c cs)
  have pc: "\<forall>m. c = ShowFieldError m \<longrightarrow> filter isFieldError (treeOrder (parser (errorMarkup m))) = []"
    using Cons.prems(4) by simp
  have pcs: "\<forall>m. ShowFieldError m \<in> set cs \<longrightarrow>
      filter isFieldError (treeOrder (parser (errorMarkup m))) = []"
    using Cons.prems(4) by simp
  from perform_ok [OF Cons.prems(1-3) pc] obtain fd1 b1 a1 where
    p: "perform parser c fd = Return () fd1" "siblings fd1 = Some (b1, a1)"
       "\<not> isFieldError (self fd1)" "length (errorNodes fd1) \<le> 1"
       "\<forall>m. c = ShowFieldError m \<longrightarrow>
           errorNodes fd1 = [errorDiv parser m] \<and> (\<exists>a''. a1 = a'' @ [errorDiv parser m])"
       "c = ClearFieldError \<longrightarrow> errorNodes fd1 = []"
    by blast
  show ?case
  proof (cases "cs = []")
    case True
    with p show ?thesis by simp
  next
    case False
    from Cons.IH [OF p(2,3,4) pcs False] p(1) False show ?thesis by simp
  qed
qed

text \<open>
  Claim C9, as amended. Take a field that has a parent, is not itself of class
  \<open>field-error\<close>, and whose container holds at most one element of class \<open>field-error\<close> to
  begin with; and take messages whose markup makes the parser build no element of class
  \<open>field-error\<close>. After any sequence of \<open>showFieldError\<close> and \<open>clearFieldError\<close> calls on the
  field no call has thrown and the container still holds at most one error node. If the
  last call was \<open>showFieldError(field, m)\<close> the container holds exactly the node built for
  \<open>m\<close>, as the last child of the parent (any earlier node is gone); if it was
  \<open>clearFieldError\<close> it holds none. On a field without error node and without the class
  \<open>error\<close>, \<open>clearFieldError\<close> returns and changes nothing.
\<close>

theorem error_annotation_discipline:
  assumes "siblings fd = Some (before, after)" "\<not> isFieldError (self fd)"
    "length (errorNodes fd) \<le> 1"
    "\<forall>m. ShowFieldError m \<in> set cs \<longrightarrow> filter isFieldError (treeOrder (parser (errorMarkup m))) = []"
  shows "\<exists>fd' before' after'.
           performAll parser cs fd = Return () fd' \<and> siblings fd' = Some (before', after')
           \<and> length (errorNodes fd') \<le> 1
           \<and> (\<forall>m. cs \<noteq> [] \<and> last cs = ShowFieldError m \<longrightarrow>
                  errorNodes fd' = [errorDiv parser m] \<and> (\<exists>a. after' = a @ [errorDiv parser m]))
           \<and> (cs \<noteq> [] \<and> last cs = ClearFieldError \<longrightarrow> errorNodes fd' = [])
           \<and> (errorNodes fd' = [] \<and> js ''error'' \<notin> set (classList (self fd')) \<longrightarrow>
                  clearFieldError fd' = Return () fd')"
proof (cases "cs = []")
  case True
  with assms clear_noop [OF assms(1)] show ?thesis by simp
next
  case False
  from performAll_ok [OF assms False] obtain fd' b' a' where
    r: "performAll parser cs fd = Return () fd'" "siblings fd' = Some (b', a')"
       "length (errorNodes fd') \<le> 1"
       "\<forall>m. last cs = ShowFieldError m \<longrightarrow>
           errorNodes fd' = [errorDiv parser m] \<and> (\<exists>a''. a' = a'' @ [errorDiv parser m])"
       "last cs = ClearFieldError \<longrightarrow> errorNodes fd' = []"
    by blast
  have "errorNodes fd' = [] \<and> js ''error'' \<notin> set (classList (self fd')) \<longrightarrow>
          clearFieldError fd' = Return () fd'"
    using clear_noop [OF r(2)] by blast
  with r show ?thesis by blast
qed

theorem error_annotation_discipline_witness:
  "siblings \<lparr>self = Element [js ''form-input''] [] [],
             siblings = Some ([Element [js ''form-label''] [] []], [])\<rparr>
     = Some ([Element [js ''form-label''] [] []], [])
   \<and> \<not> isFieldError (self \<lparr>self = Element [js ''form-input''] [] [],
             siblings = Some ([Element [js ''form-label''] [] []], [])\<rparr>)
   \<and> length (errorNodes \<lparr>self = Element [js ''form-input''] [] [],
             siblings = Some ([Element [js ''form-label''] [] []], [])\<rparr>) \<le> 1
   \<and> filter isFieldError (treeOrder (iconOnly (errorMarkup (js ''first'')))) = []
   \<and> filter isFieldError (treeOrder (iconOnly (errorMarkup (js ''second'')))) = []
   \<and> (\<exists>fd' before' after'.
         performAll iconOnly [ShowFieldError (js ''first''), ShowFieldError (js ''second'')]
           \<lparr>self = Element [js ''form-input''] [] [],
            siblings = Some ([Element [js ''form-label''] [] []], [])\<rparr> = Return () fd'
         \<and> siblings fd' = Some (before', after')
         \<and> errorNodes fd' = [errorDiv iconOnly (js ''second'')]
         \<and> (\<exists>a. after' = a @ [errorDiv iconOnly (js ''second'')]))"
proof -
  let ?fd = "\<lparr>self = Element [js ''form-input''] [] [],
             siblings = Some ([Element [js ''form-label''] [] []], [])\<rparr>"
  let ?cs = "[ShowFieldError (js ''first''), ShowFieldError (js ''second'')]"
  have h1: "siblings ?fd = Some ([Element [js ''form-label''] [] []], [])" by simp
  have h2: "\<not> isFieldError (self ?fd)" by (simp add: isFieldError_def js_def)
  have h3: "length (errorNodes ?fd) \<le> 1" by (simp add: errorNodes_def isFieldError_def js_def)
  have i: "filter isFieldError (treeOrder (iconOnly markup)) = []" for markup
    by (simp add: iconOnly_def isFieldError_def js_def)
  have h4: "\<forall>m. ShowFieldError m \<in> set ?cs \<longrightarrow>
      filter isFieldError (treeOrder (iconOnly (errorMarkup m))) = []"
    using i by simp
  have l: "?cs \<noteq> [] \<and> last ?cs = ShowFieldError (js ''second'')"
    by simp
  from error_annotation_discipline [OF h1 h2 h3 h4]
  obtain fd' before' after' where
    r: "performAll iconOnly ?cs ?fd = Return () fd'"
       "siblings fd' = Some (before', after')"
    and sh: "\<forall>m. ?cs \<noteq> [] \<and> last ?cs = ShowFieldError m \<longrightarrow>
           errorNodes fd' = [errorDiv iconOnly m] \<and> (\<exists>a. after' = a @ [errorDiv iconOnly m])"
    by (elim exE conjE)
  from sh [rule_format, of "js ''second''"] l
  have e: "errorNodes fd' = [errorDiv iconOnly (js ''second'')]"
    "\<exists>a. after' = a @ [errorDiv iconOnly (js ''second'')]"
    by simp_all
  from r e have "\<exists>fd' before' after'.
         performAll iconOnly ?cs ?fd = Return () fd'
         \<and> siblings fd' = Some (before', after')
         \<and> errorNodes fd' = [errorDiv iconOnly (js ''second'')]
         \<and> (\<exists>a. after' = a @ [errorDiv iconOnly (js ''second'')])"
    by blast
  with h1 h2 h3 i [of "errorMarkup (js ''first'')"] i [of "errorMarkup (js ''second'')"]
  show ?thesis by (intro conjI)
qed

text \<open>
  Two fields on which the discipline does not hold. A field that has left the tree has
  no error node, and \<open>clearFieldError\<close> on it throws a \<open>TypeError\<close> (\<open>parentElement\<close> is
  \<open>null\<close>). A field whose container holds two elements of class \<open>field-error\<close> before the
  first call still has two error nodes after \<open>showFieldError\<close>: the call removes the first
  one and appends its own.
\<close>

theorem error_annotation_counterexample:
  "errorNodes \<lparr>self = Element [js ''form-input''] [] [], siblings = None\<rparr> = []
   \<and> clearFieldError \<lparr>self = Element [js ''form-input''] [] [], siblings = None\<rparr>
       = Throw TypeError \<lparr>self = Element [js ''form-input''] [] [], siblings = None\<rparr>
   \<and> showFieldError iconOnly
        \<lparr>self = Element [js ''form-input''] [] [],
         siblings = Some ([], [Element [js ''field-error''] [] [], Element [js ''field-error''] [] []])\<rparr>
        (js ''Required'')
       = Return ()
          \<lparr>self = Element [js ''form-input'', js ''error''] [] [],
           siblings = Some ([], [Element [js ''field-error''] [] [], errorDiv iconOnly (js ''Required'')])\<rparr>
   \<and> length (errorNodes
        \<lparr>self = Element [js ''form-input'', js ''error''] [] [],
         siblings = Some ([], [Element [js ''field-error''] [] [], errorDiv iconOnly (js ''Required'')])\<rparr>)
       = 2"
  by (simp add: errorNodes_def clearFieldError_def showFieldError_def classList_remove_def
      classList_add_def isFieldError_def errorDiv_def iconOnly_def js_def)

section \<open>Properties of the submit event\<close>

lemma validationSubmit_storage:
  "validationSubmit parser doc st = Return u st' \<Longrightarrow> localStorage (page_state st') = localStorage (page_state st)"
  "validationSubmit parser doc st = Throw e st' \<Longrightarrow> localStorage (page_state st') = localStorage (page_state st)"
  by (auto simp: validationSubmit_def showNotification_def split: result.splits if_splits)

lemma validationSubmit_prevented:
  "validateEach parser doc (inputs st) True = Return False ins \<Longrightarrow>
     \<exists>st'. validationSubmit parser doc st = Return () st' \<and> defaultPrevented st'"
  by (simp add: validationSubmit_def)

text \<open>
  Claim C5. For a form with a \<open>data-autosave\<close> attribute, dispatching the submit event
  always deletes the stored payload of its \<open>formId\<close> and leaves every other key alone,
  whatever the validation listener did before (returned or thrown). In particular, when
  some input is invalid the validation listener calls \<open>preventDefault\<close> and the payload is
  deleted all the same.
\<close>

theorem submit_clears_autosave:
  assumes "autosave fm = Some formId"
  shows "localStorage (page_state (submitEvent parser doc fm doms pg))
           = (localStorage pg)(storageKey formId := None)
         \<and> ((\<exists>ins. validateEach parser doc (zip (controls fm) doms) True = Return False ins) \<longrightarrow>
              defaultPrevented (submitEvent parser doc fm doms pg)
              \<and> localStorage (page_state (submitEvent parser doc fm doms pg)) (storageKey formId) = None)"
proof -
  let ?st = "\<lparr>inputs = zip (controls fm) doms, page_state = pg, defaultPrevented = False\<rparr>"
  have ev: "submitEvent parser doc fm doms pg = dispatch [validationSubmit parser doc, autosaveSubmit formId] ?st"
    using assms by (simp add: submitEvent_def submitListeners_def)
  have store: "localStorage (page_state (submitEvent parser doc fm doms pg))
           = (localStorage pg)(storageKey formId := None)"
  proof (cases "validationSubmit parser doc ?st")
    case (Return u st')
    with validationSubmit_storage(1) [OF Return] show ?thesis
      by (simp add: ev autosaveSubmit_def clearFormData_def)
  next
    case (Throw e st')
    with validationSubmit_storage(2) [OF Throw] show ?thesis
      by (simp add: ev autosaveSubmit_def clearFormData_def reportError_def)
  qed
  have prev: "defaultPrevented (submitEvent parser doc fm doms pg)"
    if "validateEach parser doc (zip (controls fm) doms) True = Return False ins" for ins
  proof -
    from validationSubmit_prevented [of parser doc ?st ins] that
    obtain st' where "validationSubmit parser doc ?st = Return () st'" "defaultPrevented st'" by auto
    then show ?thesis by (simp add: ev autosaveSubmit_def)
  qed
  from store prev show ?thesis by auto
qed

theorem submit_clears_autosave_witness:
  "autosave \<lparr>autosave = Some (js ''signup''),
       controls = [(control ''text'' ''name'' '''')\<lparr>f_required := True\<rparr>]\<rparr> = Some (js ''signup'')
   \<and> (\<exists>ins. validateEach iconOnly []
          (zip (controls \<lparr>autosave = Some (js ''signup''),
                  controls = [(control ''text'' ''name'' '''')\<lparr>f_required := True\<rparr>]\<rparr>)
             [\<lparr>self = Element [] [] [], siblings = Some ([], [])\<rparr>]) True = Return False ins)
   \<and> [storageKey (js ''signup'') \<mapsto> js ''{}''] (storageKey (js ''signup'')) = Some (js ''{}'')
   \<and> defaultPrevented (submitEvent iconOnly []
         \<lparr>autosave = Some (js ''signup''),
          controls = [(control ''text'' ''name'' '''')\<lparr>f_required := True\<rparr>]\<rparr>
         [\<lparr>self = Element [] [] [], siblings = Some ([], [])\<rparr>]
         \<lparr>localStorage = [storageKey (js ''signup'') \<mapsto> js ''{}''], console = [], notifications = []\<rparr>)
   \<and> localStorage (page_state (submitEvent iconOnly []
         \<lparr>autosave = Some (js ''signup''),
          controls = [(control ''text'' ''name'' '''')\<lparr>f_required := True\<rparr>]\<rparr>
         [\<lparr>self = Element [] [] [], siblings = Some ([], [])\<rparr>]
         \<lparr>localStorage = [storageKey (js ''signup'') \<mapsto> js ''{}''], console = [], notifications = []\<rparr>))
       (storageKey (js ''signup'')) = None"
proof -
  let ?fm = "\<lparr>autosave = Some (js ''signup''),
       controls = [(control ''text'' ''name'' '''')\<lparr>f_required := True\<rparr>]\<rparr>"
  let ?doms = "[\<lparr>self = Element [] [] [], siblings = Some ([], [])\<rparr>]"
  let ?pg = "\<lparr>localStorage = [storageKey (js ''signup'') \<mapsto> js ''{}''], console = [], notifications = []\<rparr>"
  have h: "autosave ?fm = Some (js ''signup'')" by simp
  have inv: "validateField_locals [] ((control ''text'' ''name'' '''')\<lparr>f_required := True\<rparr>)
      = \<lparr>isValid = False, errorMessage = js ''name is required''\<rparr>"
    by (simp add: validateField_locals_def requiredRule_def emailRule_def phoneRule_def
        password1Rule_def password2Rule_def priceRule_def control_def js_def trim_def fieldName_def)
  have v: "\<exists>ins. validateEach iconOnly [] (zip (controls ?fm) ?doms) True = Return False ins"
    by (simp add: validateField_def inv showFieldError_def clearFieldError_def
        classList_remove_def classList_add_def isFieldError_def)
  from submit_clears_autosave [OF h, of iconOnly "[]" ?doms ?pg] v
  have "defaultPrevented (submitEvent iconOnly [] ?fm ?doms ?pg)
      \<and> localStorage (page_state (submitEvent iconOnly [] ?fm ?doms ?pg)) (storageKey (js ''signup'')) = None"
    by blast
  with h v show ?thesis by simp
qed

section \<open>Properties of the autosave store\<close>

subsection \<open>The parsers consume their input\<close>

text \<open>
  Every parser that succeeds leaves less input than it was given, so the tests on
  lengths in \<open>parseElements\<close> and \<open>parseMembers\<close> never fail: the two functions satisfy
  their equations without these tests.
\<close>

lemma parseChars_shorter: "parseChars s = Some (x, t) \<Longrightarrow> length t < length s"
proof (induction "length s" arbitrary: s x t rule: less_induct)
  case less
  note IH = less.hyps
  show ?case
  proof (cases s)
    case Nil
    with less.prems show ?thesis by simp
  next
    case (Cons c cs)
    have step: "length t < length s" if "parseChars r = Some (y, t)" "length r < length s" for r y
      using IH [OF that(2) that(1)] that(2) by simp
    from less.prems show ?thesis
      unfolding Cons parseChars.simps
      by (auto split: if_splits option.splits list.splits prod.splits
               dest!: step [unfolded Cons])
  qed
qed


lemma length_skipWhiteSpace: "length (skipWhiteSpace s) \<le> length s"
  by (simp add: skipWhiteSpace_def length_dropWhile_le)

lemma skipWhiteSpace_Cons: "skipWhiteSpace r = d # t \<Longrightarrow> length t < length r"
  using length_skipWhiteSpace [of r] by simp

lemma length_dropWhile_takeWhile:
  "takeWhile P xs \<noteq> [] \<Longrightarrow> length (dropWhile P xs) < length xs"
  by (cases xs) (auto simp: less_Suc_eq_le length_dropWhile_le split: if_splits)

lemma if_None_Some: "(if C then None else Some p) = Some q \<Longrightarrow> \<not> C \<and> p = q"
  by (simp split: if_splits)

lemma parseNumber_shorter: "parseNumber s = Some (n, t) \<Longrightarrow> length t < length s"
proof -
  assume a: "parseNumber s = Some (n, t)"
  define u where "u = (if take 1 s = [0x2D] then drop 1 s else s)"
  define r1 where "r1 = dropWhile isDigit u"
  define r2 where "r2 = (if take 1 r1 = [0x2E] then dropWhile isDigit (drop 1 r1) else r1)"
  define r3 where "r3 = (if take 1 r2 = [0x65] \<or> take 1 r2 = [0x45] then drop 1 r2 else r2)"
  define r4 where "r4 = (if (take 1 r2 = [0x65] \<or> take 1 r2 = [0x45])
      \<and> (take 1 r3 = [0x2D] \<or> take 1 r3 = [0x2B]) then drop 1 r3 else r3)"
  define r5 where "r5 = (if take 1 r2 = [0x65] \<or> take 1 r2 = [0x45] then dropWhile isDigit r4 else r2)"
  note b = if_None_Some [OF a [unfolded parseNumber_def Let_def]]
  from b have ip: "takeWhile isDigit u \<noteq> []"
    unfolding u_def by blast
  from b have t: "t = r5"
    unfolding u_def r1_def r2_def r3_def r4_def r5_def by blast
  have "length u \<le> length s" by (simp add: u_def)
  moreover have "length r1 < length u"
    unfolding r1_def using ip by (rule length_dropWhile_takeWhile)
  moreover have "length r2 \<le> length r1"
    unfolding r2_def using length_dropWhile_le [of isDigit "drop 1 r1"] by (simp, arith)
  moreover have "length r3 \<le> length r2" by (simp add: r3_def)
  moreover have "length r4 \<le> length r3" by (simp add: r4_def)
  moreover have "length r5 \<le> length r2"
    unfolding r5_def using length_dropWhile_le [of isDigit r4] \<open>length r4 \<le> length r3\<close>
      \<open>length r3 \<le> length r2\<close> by simp
  ultimately show ?thesis unfolding t by linarith
qed


lemma parse_shorter:
  "(\<forall>v r. parseValue s = Some (v, r) \<longrightarrow> length r < length s)
   \<and> (\<forall>vs r. parseElements s = Some (vs, r) \<longrightarrow> length r < length s)
   \<and> (\<forall>ms r. parseMembers s = Some (ms, r) \<longrightarrow> length r < length s)"
proof (induction "length s" arbitrary: s rule: less_induct)
  case less
  have E: "length r < length s'" if "parseElements s' = Some (vs, r)" "length s' < length s" for s' vs r
    using less.hyps [OF that(2)] that(1) by blast
  have M: "length r < length s'" if "parseMembers s' = Some (ms, r)" "length s' < length s" for s' ms r
    using less.hyps [OF that(2)] that(1) by blast
  have V': "length r < length s'" if "parseValue s' = Some (v, r)" "length s' < length s" for s' v r
    using less.hyps [OF that(2)] that(1) by blast
  have V: "length r < length s" if v: "parseValue s = Some (v, r)" for v r
  proof (cases s)
    case Nil
    with v show ?thesis by (simp add: parseValue.simps)
  next
    case (Cons c t)
    have sk: "length (skipWhiteSpace t) < length s"
      using length_skipWhiteSpace [of t] Cons by simp
    have dr: "length (drop 1 (skipWhiteSpace t)) < length s"
      using sk by simp
    consider (obj) "c = 0x7B" | (arr) "c \<noteq> 0x7B" "c = 0x5B" | (str) "c \<noteq> 0x7B" "c \<noteq> 0x5B" "c = 0x22"
      | (other) "c \<noteq> 0x7B" "c \<noteq> 0x5B" "c \<noteq> 0x22"
      by blast
    then show ?thesis
    proof cases
      case obj
      show ?thesis
      proof (cases "take 1 (skipWhiteSpace t) = [0x7D]")
        case True
        with v obj Cons dr show ?thesis by (auto simp: parseValue.simps)
      next
        case False
        with v obj Cons obtain ms where "parseMembers (skipWhiteSpace t) = Some (ms, r)"
          by (auto simp: parseValue.simps split: option.splits)
        from M [OF this sk] sk show ?thesis by simp
      qed
    next
      case arr
      show ?thesis
      proof (cases "take 1 (skipWhiteSpace t) = [0x5D]")
        case True
        with v arr Cons dr show ?thesis by (auto simp: parseValue.simps)
      next
        case False
        with v arr Cons obtain vs where "parseElements (skipWhiteSpace t) = Some (vs, r)"
          by (auto simp: parseValue.simps split: option.splits)
        from E [OF this sk] sk show ?thesis by simp
      qed
    next
      case str
      with v Cons obtain x where "parseChars t = Some (x, r)"
        by (auto simp: parseValue.simps split: option.splits)
      from parseChars_shorter [OF this] Cons show ?thesis by simp
    next
      case other
      have s4: "take 4 s = w \<Longrightarrow> length w = 4 \<Longrightarrow> length (drop 4 s) < length s" for w
        by (cases s) auto
      have s5: "take 5 s = w \<Longrightarrow> length w = 5 \<Longrightarrow> length (drop 5 s) < length s" for w
        by (cases s) auto
      from v other Cons have
        "(take 4 s = js ''true'' \<and> r = drop 4 s) \<or> (take 5 s = js ''false'' \<and> r = drop 5 s)
         \<or> (take 4 s = js ''null'' \<and> r = drop 4 s) \<or> (\<exists>n. parseNumber s = Some (n, r))"
        by (subst (asm) parseValue.simps) (auto split: if_splits option.splits)
      then show ?thesis
        using s4 [of "js ''true''"] s4 [of "js ''null''"] s5 [of "js ''false''"] parseNumber_shorter [of s _ r]
        by (auto simp: js_def)
    qed
  qed
  have Es: "length r < length s" if e: "parseElements s = Some (vs, r)" for vs r
  proof -
    from e obtain v r0 where v: "parseValue s = Some (v, r0)"
      by (subst (asm) parseElements.simps) (auto split: option.splits)
    from V [OF v] have r0: "length r0 < length s" .
    from e v r0 obtain d t where sk: "skipWhiteSpace r0 = d # t"
      by (subst (asm) parseElements.simps) (auto split: list.splits)
    from skipWhiteSpace_Cons [OF sk] r0 have t: "length t < length s" by simp
    then have skt: "length (skipWhiteSpace t) < length s"
      using length_skipWhiteSpace [of t] by simp
    from e v r0 sk have "r = t \<or> (\<exists>ws. parseElements (skipWhiteSpace t) = Some (ws, r))"
      by (subst (asm) parseElements.simps) (auto split: if_splits option.splits)
    then show ?thesis using t E [OF _ skt] skt by auto
  qed
  have Ms: "length r < length s" if m: "parseMembers s = Some (ms, r)" for ms r
  proof -
    from m obtain t where s: "s = 0x22 # t"
      by (subst (asm) parseMembers.simps) (auto split: list.splits if_splits)
    from m s obtain k r1 where k: "parseChars t = Some (k, r1)"
      by (subst (asm) parseMembers.simps) (auto split: option.splits)
    from parseChars_shorter [OF k] have r1: "length r1 < length t" .
    let ?s2 = "skipWhiteSpace (drop 1 (skipWhiteSpace r1))"
    have s2: "length ?s2 < length s"
      using length_skipWhiteSpace [of "drop 1 (skipWhiteSpace r1)"] length_skipWhiteSpace [of r1] r1 s
      by simp
    from m s k obtain v r2 where v: "parseValue ?s2 = Some (v, r2)"
      by (subst (asm) parseMembers.simps) (auto split: option.splits if_splits)
    from V' [OF v s2] s2 have r2: "length r2 < length s" by simp
    from m s k v obtain d u where sk: "skipWhiteSpace r2 = d # u"
      by (subst (asm) parseMembers.simps) (auto split: list.splits if_splits)
    from skipWhiteSpace_Cons [OF sk] r2 have u: "length u < length s" by simp
    then have sku: "length (skipWhiteSpace u) < length s"
      using length_skipWhiteSpace [of u] by simp
    from m s k v sk have "r = u \<or> (\<exists>ws. parseMembers (skipWhiteSpace u) = Some (ws, r))"
      by (subst (asm) parseMembers.simps) (auto split: if_splits option.splits)
    then show ?thesis using u M [OF _ sku] sku by auto
  qed
  from V Es Ms show ?case by blast
qed


lemma parseElements_unguarded:
  "parseElements s =
     (case parseValue s of
        None \<Rightarrow> None
      | Some (v, r) \<Rightarrow>
          (case skipWhiteSpace r of
             [] \<Rightarrow> None
           | d # t \<Rightarrow>
               if d = 0x5D then Some ([v], t)
               else if d = 0x2C then
                 (case parseElements (skipWhiteSpace t) of
                    None \<Rightarrow> None
                  | Some (vs, u) \<Rightarrow> Some (v # vs, u))
               else None))"
proof (cases "parseValue s")
  case None
  then show ?thesis by (subst parseElements.simps) simp
next
  case (Some p)
  obtain v r where p: "p = (v, r)" by (cases p)
  from parse_shorter [of s] Some p have "length r < length s" by blast
  with Some p show ?thesis by (subst parseElements.simps) simp
qed

lemma parseMembers_unguarded:
  "parseMembers (0x22 # r) =
     (case parseChars r of
        None \<Rightarrow> None
      | Some (k, r1) \<Rightarrow>
          if take 1 (skipWhiteSpace r1) = [0x3A] then
            (case parseValue (skipWhiteSpace (drop 1 (skipWhiteSpace r1))) of
               None \<Rightarrow> None
             | Some (v, r2) \<Rightarrow>
                 (case skipWhiteSpace r2 of
                    [] \<Rightarrow> None
                  | d # t \<Rightarrow>
                      if d = 0x7D then Some ([(k, v)], t)
                      else if d = 0x2C then
                        (case parseMembers (skipWhiteSpace t) of
                           None \<Rightarrow> None
                         | Some (ms, u) \<Rightarrow> Some ((k, v) # ms, u))
                      else None))
          else None)"
proof (cases "parseChars r")
  case None
  then show ?thesis by (subst parseMembers.simps) simp
next
  case (Some p)
  obtain k r1 where p: "p = (k, r1)" by (cases p)
  from parseChars_shorter [of r k r1] Some p have r1: "length r1 < length r" by simp
  let ?s2 = "skipWhiteSpace (drop 1 (skipWhiteSpace r1))"
  have s2: "length ?s2 \<le> length r1"
    using length_skipWhiteSpace [of "drop 1 (skipWhiteSpace r1)"] length_skipWhiteSpace [of r1]
    by simp
  show ?thesis
  proof (cases "parseValue ?s2")
    case None
    with Some p r1 show ?thesis by (subst parseMembers.simps) simp
  next
    case v: (Some q)
    obtain v r2 where q: "q = (v, r2)" by (cases q)
    from parse_shorter [of ?s2] v q have "length r2 < length ?s2" by blast
    with s2 r1 have "length r2 < length r" by simp
    with Some p r1 v q show ?thesis by (subst parseMembers.simps) simp
  qed
qed

subsection \<open>Parsing what was serialised\<close>












lemma skipWhiteSpace_punct [simp]:
  "skipWhiteSpace (0x22 # s) = 0x22 # s" "skipWhiteSpace (0x7B # s) = 0x7B # s"
  "skipWhiteSpace (0x7D # s) = 0x7D # s" "skipWhiteSpace (0x3A # s) = 0x3A # s"
  "skipWhiteSpace (0x2C # s) = 0x2C # s" "skipWhiteSpace [] = []"
  by (simp_all add: skipWhiteSpace_def isJSONWhiteSpace_def)




lemma stringifyValue_head:
  "\<exists>c s. stringifyValue v = c # s \<and> (c = 0x22 \<or> c = 0x7B)"
  by (cases v) (simp_all add: quoteJSONString_def js_def)

lemma skipWhiteSpace_stringifyValue [simp]:
  "skipWhiteSpace (stringifyValue v @ rest) = stringifyValue v @ rest"
  using stringifyValue_head [of v] by auto





subsection \<open>Objects as property lists\<close>

lemma insertProperty_Cons:
  "insertProperty k v (p # ps) = (k, v) # p # ps \<or> insertProperty k v (p # ps) = p # insertProperty k v ps"
  by (cases p) simp

lemma insertProperty_keys: "fst ` set (insertProperty k v ps) = insert k (fst ` set ps)"
proof (induction ps)
  case Nil
  show ?case by simp
next
  case (Cons p ps)
  from insertProperty_Cons [of k v p ps] show ?case
  proof
    assume "insertProperty k v (p # ps) = (k, v) # p # ps"
    then show ?thesis by simp
  next
    assume "insertProperty k v (p # ps) = p # insertProperty k v ps"
    then show ?thesis using Cons.IH by auto
  qed
qed

lemma insertProperty_map_of:
  "k \<notin> fst ` set ps \<Longrightarrow> map_of (insertProperty k v ps) x = (if x = k then Some v else map_of ps x)"
proof (induction ps)
  case Nil
  show ?case by simp
next
  case (Cons p ps)
  have k: "k \<noteq> fst p" "k \<notin> fst ` set ps" using Cons.prems by auto
  from insertProperty_Cons [of k v p ps] show ?case
  proof
    assume "insertProperty k v (p # ps) = (k, v) # p # ps"
    then show ?thesis by simp
  next
    assume "insertProperty k v (p # ps) = p # insertProperty k v ps"
    then show ?thesis using Cons.IH [OF k(2)] k(1) by (cases p) auto
  qed
qed

lemma insertProperty_distinct:
  "k \<notin> fst ` set ps \<Longrightarrow> distinct (map fst ps) \<Longrightarrow> distinct (map fst (insertProperty k v ps))"
proof (induction ps)
  case Nil
  then show ?case by simp
next
  case (Cons p ps)
  have k: "k \<noteq> fst p" "k \<notin> fst ` set ps" using Cons.prems(1) by auto
  have d: "fst p \<notin> fst ` set ps" "distinct (map fst ps)" using Cons.prems(2) by auto
  have keys: "fst ` set (insertProperty k v ps) = insert k (fst ` set ps)"
    by (rule insertProperty_keys)
  from insertProperty_Cons [of k v p ps] show ?case
  proof
    assume "insertProperty k v (p # ps) = (k, v) # p # ps"
    then show ?thesis using Cons.prems by simp
  next
    assume e: "insertProperty k v (p # ps) = p # insertProperty k v ps"
    have "fst p \<notin> fst ` set (insertProperty k v ps)"
      unfolding keys using k(1) d(1) by simp
    with Cons.IH [OF k(2) d(2)] show ?thesis by (simp add: e)
  qed
qed

lemma replace_value_fst:
  "map (fst \<circ> (\<lambda>(k', v'). if k' = k then (k', v) else (k', v'))) ps = map fst ps"
  by (induction ps) auto

lemma replace_value_map_of:
  "map_of (map (\<lambda>(k', v'). if k' = k then (k', v) else (k', v')) ps) x =
     (if x = k \<and> map_of ps k \<noteq> None then Some v else map_of ps x)"
  by (induction ps) auto

lemma has_key: "k \<in> fst ` set ps \<longleftrightarrow> map_of ps k \<noteq> None"
  by (simp add: map_of_eq_None_iff)

lemma defineProperty_map_of: "map_of (defineProperty k v ps) x = (if x = k then Some v else map_of ps x)"
  by (simp add: defineProperty_def replace_value_map_of insertProperty_map_of has_key)

lemma defineProperty_keys: "fst ` set (defineProperty k v ps) = insert k (fst ` set ps)"
proof -
  have "x \<in> fst ` set (defineProperty k v ps) \<longleftrightarrow> x \<in> insert k (fst ` set ps)" for x
    unfolding has_key insert_iff by (simp add: defineProperty_map_of)
  then show ?thesis by blast
qed

lemma defineProperty_distinct:
  "distinct (map fst ps) \<Longrightarrow> distinct (map fst (defineProperty k v ps))"
  by (simp add: defineProperty_def replace_value_fst insertProperty_distinct)



subsection \<open>The two loops\<close>

lemma assign_map_of:
  "map_of (assign k v ps) x = (if x = k \<and> k \<noteq> js ''__proto__'' then Some v else map_of ps x)"
  by (simp add: assign_def defineProperty_map_of)

lemma assign_distinct: "distinct (map fst ps) \<Longrightarrow> distinct (map fst (assign k v ps))"
  by (simp add: assign_def defineProperty_distinct)

lemma map_of_rev_Cons:
  "map_of (rev ((key, v) # es)) k =
     (case map_of (rev es) k of Some y \<Rightarrow> Some y | None \<Rightarrow> (if k = key then Some v else None))"
  by (simp add: map_add_def split: option.splits)

lemma map_of_rev_mem: "map_of (rev es) k = Some y \<Longrightarrow> (k, y) \<in> set es"
  using map_of_SomeD [of "rev es" k y] by simp

lemma collect_step:
  "plainName key \<Longrightarrow> querySelector ms key = Some el \<Longrightarrow>
     typeOf el = js ''file'' \<or> (\<exists>s. v = Str s) \<or> key \<noteq> js ''__proto__'' \<Longrightarrow>
     collect ms ((key, v) # es) data =
       collect ms es (if typeOf el \<noteq> js ''file'' then assign key v data else data)"
  by (cases v) auto


text \<open>
  When every entry has a plain name and the element found under that name is of type
  \<open>file\<close> exactly for the \<open>File\<close> entries, the loop ends and the object it builds holds,
  for every name, the last string entry of that name.
\<close>

lemma collect_exact:
  assumes "\<forall>(k, v) \<in> set es. plainName k \<and>
             (\<exists>el. querySelector ms k = Some el \<and> (typeOf el = js ''file'' \<longleftrightarrow> (\<exists>n. v = File n)))"
    and "distinct (map fst data)"
  shows "\<exists>d. collect ms es data = Done d \<and> distinct (map fst d) \<and>
          (\<forall>k. map_of d k =
             (case map_of (rev es) k of
                Some (Str s) \<Rightarrow> if k = js ''__proto__'' then map_of data k else Some (Str s)
              | Some (File n) \<Rightarrow> map_of data k
              | None \<Rightarrow> map_of data k))"
  using assms
proof (induction es arbitrary: data)
  case Nil
  then show ?case by simp
next
  case (Cons e es)
  obtain key v where e: "e = (key, v)" by (cases e)
  from Cons.prems(1) obtain el where pl: "plainName key"
    and el: "querySelector ms key = Some el"
    and ty: "typeOf el = js ''file'' \<longleftrightarrow> (\<exists>n. v = File n)"
    by (auto simp: e)
  have rest: "\<forall>(k, v) \<in> set es. plainName k \<and>
             (\<exists>el. querySelector ms k = Some el \<and> (typeOf el = js ''file'' \<longleftrightarrow> (\<exists>n. v = File n)))"
    using Cons.prems(1) by simp
  let ?data' = "if typeOf el \<noteq> js ''file'' then assign key v data else data"
  have d': "distinct (map fst ?data')"
    using Cons.prems(2) by (simp add: assign_distinct)
  from Cons.IH [OF rest d'] obtain d where
    c: "collect ms es ?data' = Done d" and dd: "distinct (map fst d)"
    and m: "\<And>k. map_of d k =
             (case map_of (rev es) k of
                Some (Str s) \<Rightarrow> if k = js ''__proto__'' then map_of ?data' k else Some (Str s)
              | Some (File n) \<Rightarrow> map_of ?data' k
              | None \<Rightarrow> map_of ?data' k)"
    by blast
  have "typeOf el = js ''file'' \<or> (\<exists>s. v = Str s) \<or> key \<noteq> js ''__proto__''"
    using ty by (cases v) auto
  from collect_step [OF pl el this] c have step: "collect ms (e # es) data = Done d"
    by (simp add: e)
  have same_kind: "\<exists>n. v = File n" if "(key, File n') \<in> set es" for n'
  proof -
    from rest that obtain el' where "querySelector ms key = Some el'" "typeOf el' = js ''file''"
      by fastforce
    with el ty show ?thesis by simp
  qed
  have proto: "map_of ?data' (js ''__proto__'') = map_of data (js ''__proto__'')"
    by (auto simp: assign_map_of)
  have other: "map_of ?data' k = map_of data k" if "k \<noteq> key" for k
    using that by (simp add: assign_map_of)
  have "map_of d k =
             (case map_of (rev (e # es)) k of
                Some (Str s) \<Rightarrow> if k = js ''__proto__'' then map_of data k else Some (Str s)
              | Some (File n) \<Rightarrow> map_of data k
              | None \<Rightarrow> map_of data k)" for k
  proof (cases "map_of (rev es) k")
    case None
    show ?thesis
    proof (cases "k = key")
      case False
      with None other [OF False] show ?thesis
        unfolding m e map_of_rev_Cons by simp
    next
      case True
      show ?thesis
      proof (cases v)
        case (Str s)
        with ty have "typeOf el \<noteq> js ''file''" by simp
        with None True Str show ?thesis
          unfolding m e map_of_rev_Cons by (simp add: assign_map_of)
      next
        case (File n)
        with ty have "typeOf el = js ''file''" by simp
        with None True File show ?thesis
          unfolding m e map_of_rev_Cons by simp
      qed
    qed
  next
    case (Some y)
    show ?thesis
    proof (cases y)
      case (Str s)
      show ?thesis
      proof (cases "k = js ''__proto__''")
        case True
        with Some Str proto show ?thesis
          unfolding m e map_of_rev_Cons by simp
      next
        case False
        with Some Str show ?thesis
          unfolding m e map_of_rev_Cons by simp
      qed
    next
      case (File n)
      show ?thesis
      proof (cases "k = key")
        case False
        with Some File other [OF False] show ?thesis
          unfolding m e map_of_rev_Cons by simp
      next
        case True
        from Some File True have "(key, File n) \<in> set es"
          using map_of_rev_mem by fastforce
        from same_kind [OF this] ty have "typeOf el = js ''file''" by simp
        with Some File show ?thesis
          unfolding m e map_of_rev_Cons by simp
      qed
    qed
  qed
  with step dd show ?case by blast
qed








subsection \<open>What is saved\<close>

lemma entriesOfControl_file:
  "(k, File n) \<in> set (entriesOfControl c) \<Longrightarrow> f_type c = js ''file''"
  by (auto simp: entriesOfControl_def split: if_splits)

text \<open>
  Claim C8, as amended. \<open>new FormData(form)\<close> reports the controls that the form owns, when
  they are enabled and named: a checkbox or radio button when it is checked, a \<open>select\<close>
  with each of its selected options, never a button. Take a form in which every entry so
  reported has a plain name (no quote, backslash, line break, NUL or surrogate, so that the
  selector built from the name tests that name) and the first element of the subtree
  carrying the name exists and is of type \<open>file\<close> exactly when the entry comes from a file
  input. \<open>saveFormData\<close> then returns, and the payload it stores has no entry for a file
  input, populated or not, and maps every other reported name, \<open>__proto__\<close> apart, to the
  value of the last entry reported under that name. Controls that \<open>FormData\<close> does not
  report have no entry.
\<close>

theorem saved_payload_contents:
  assumes plain: "\<forall>(k, v) \<in> set (formDataEntries fm). plainName k"
    and lookup: "\<forall>(k, v) \<in> set (formDataEntries fm).
        \<exists>el. querySelector fm k = Some el \<and> (typeOf el = js ''file'' \<longleftrightarrow> (\<exists>n. v = File n))"
  shows "\<exists>data. saveFormData fm formId pg =
            Done (pg\<lparr>localStorage := (localStorage pg)(storageKey formId \<mapsto> JSON_stringify data),
                     console := console pg @
                       [ConsoleLog ([0xD83D, 0xDCDD] @ js '' Form data saved: '' @ formId)]\<rparr>)
          \<and> distinct (map fst data)
          \<and> (\<forall>k. map_of data k =
                (if k = js ''__proto__'' then None
                 else case map_of (rev (formDataEntries fm)) k of
                        Some (Str s) \<Rightarrow> Some (Str s)
                      | Some (File n) \<Rightarrow> None
                      | None \<Rightarrow> None))
          \<and> (\<forall>k n. (k, File n) \<in> set (formDataEntries fm) \<longrightarrow> k \<notin> fst ` set data)
          \<and> (\<forall>c. (Owned c \<in> set fm \<or> Attached c \<in> set fm) \<and> f_type c = js ''file'' \<and>
                  \<not> f_disabled c \<and> f_name c \<noteq> [] \<longrightarrow>
                  toScalarValueString (f_name c) \<notin> fst ` set data)"
proof -
  let ?E = "formDataEntries fm"
  have pre: "\<forall>(k, v) \<in> set ?E. plainName k \<and>
             (\<exists>el. querySelector fm k = Some el \<and> (typeOf el = js ''file'' \<longleftrightarrow> (\<exists>n. v = File n)))"
    using plain lookup by fastforce
  have d0: "distinct (map fst ([] :: (jsstring \<times> entry_value) list))" by simp
  from collect_exact [OF pre d0] obtain data where
    data: "collect fm ?E [] = Done data" and dd: "distinct (map fst data)"
    and m: "\<And>k. map_of data k =
             (case map_of (rev ?E) k of
                Some (Str s) \<Rightarrow> if k = js ''__proto__'' then map_of [] k else Some (Str s)
              | Some (File n) \<Rightarrow> map_of [] k
              | None \<Rightarrow> map_of [] k)"
    by blast
  have save: "saveFormData fm formId pg =
            Done (pg\<lparr>localStorage := (localStorage pg)(storageKey formId \<mapsto> JSON_stringify data),
                     console := console pg @
                       [ConsoleLog ([0xD83D, 0xDCDD] @ js '' Form data saved: '' @ formId)]\<rparr>)"
    using data by (simp add: saveFormData_def)
  have eq: "map_of data k =
                (if k = js ''__proto__'' then None
                 else case map_of (rev ?E) k of
                        Some (Str s) \<Rightarrow> Some (Str s)
                      | Some (File n) \<Rightarrow> None
                      | None \<Rightarrow> None)" for k
    unfolding m by (simp split: option.splits entry_value.splits)
  have files: "k \<notin> fst ` set data" if f: "(k, File n) \<in> set ?E" for k n
  proof
    assume "k \<in> fst ` set data"
    then obtain y where y: "map_of data k = Some y"
      unfolding has_key by auto
    then obtain s where s: "map_of (rev ?E) k = Some (Str s)"
      unfolding eq by (auto split: if_splits option.splits entry_value.splits)
    from map_of_rev_mem [OF s] lookup obtain el where
      "querySelector fm k = Some el" "typeOf el \<noteq> js ''file''"
      by fastforce
    moreover from f lookup obtain el' where
      "querySelector fm k = Some el'" "typeOf el' = js ''file''"
      by fastforce
    ultimately show False by simp
  qed
  have inputs: "toScalarValueString (f_name c) \<notin> fst ` set data"
    if c: "Owned c \<in> set fm \<or> Attached c \<in> set fm" and ty: "f_type c = js ''file''"
      and en: "\<not> f_disabled c" "f_name c \<noteq> []" for c
  proof -
    have "\<exists>n. (toScalarValueString (f_name c), File n) \<in> set (entriesOfControl c)"
    proof (cases "f_files c")
      case Nil
      with ty en have "entriesOfControl c = [(toScalarValueString (f_name c), File [])]"
        by (simp add: entriesOfControl_def js_def)
      then show ?thesis by simp
    next
      case (Cons n ns)
      with ty en have "entriesOfControl c = map (\<lambda>n. createEntry (f_name c) (File n)) (f_files c)"
        by (simp add: entriesOfControl_def js_def)
      with Cons show ?thesis by auto
    qed
    then obtain n where n: "(toScalarValueString (f_name c), File n) \<in> set (entriesOfControl c)"
      by blast
    from c have "(toScalarValueString (f_name c), File n) \<in> set ?E"
    proof
      assume "Owned c \<in> set fm"
      with n show ?thesis unfolding formDataEntries_def by force
    next
      assume "Attached c \<in> set fm"
      with n show ?thesis unfolding formDataEntries_def by force
    qed
    then show ?thesis by (rule files)
  qed
  from save dd eq files inputs show ?thesis by blast
qed

lemmas save_eval = saveFormData_def formDataEntries_def entriesOfControl_def control_def
  plainName_def querySelector_def assign_def defineProperty_def JSON_stringify_def
  quoteJSONString_def js_def storageKey_def isHighSurrogate_def isLowSurrogate_def isArrayIndex_def
  isDigit_def asciiLowercase_def

theorem saved_payload_contents_witness:
  "formDataEntries
      [Owned (control ''text'' ''title'' ''Tent''),
       Owned ((control ''file'' ''photo'' ''tent.png'')\<lparr>f_files := [js ''tent.png'']\<rparr>),
       Owned (control ''radio'' ''colour'' ''red''),
       Owned ((control ''radio'' ''colour'' ''blue'')\<lparr>f_checked := True\<rparr>)]
     = [(js ''title'', Str (js ''Tent'')), (js ''photo'', File (js ''tent.png'')),
        (js ''colour'', Str (js ''blue''))]
   \<and> plainName (js ''title'') \<and> plainName (js ''photo'') \<and> plainName (js ''colour'')
   \<and> querySelector
        [Owned (control ''text'' ''title'' ''Tent''),
         Owned ((control ''file'' ''photo'' ''tent.png'')\<lparr>f_files := [js ''tent.png'']\<rparr>),
         Owned (control ''radio'' ''colour'' ''red''),
         Owned ((control ''radio'' ''colour'' ''blue'')\<lparr>f_checked := True\<rparr>)] (js ''title'')
        = Some (Owned (control ''text'' ''title'' ''Tent''))
   \<and> querySelector
        [Owned (control ''text'' ''title'' ''Tent''),
         Owned ((control ''file'' ''photo'' ''tent.png'')\<lparr>f_files := [js ''tent.png'']\<rparr>),
         Owned (control ''radio'' ''colour'' ''red''),
         Owned ((control ''radio'' ''colour'' ''blue'')\<lparr>f_checked := True\<rparr>)] (js ''photo'')
        = Some (Owned ((control ''file'' ''photo'' ''tent.png'')\<lparr>f_files := [js ''tent.png'']\<rparr>))
   \<and> querySelector
        [Owned (control ''text'' ''title'' ''Tent''),
         Owned ((control ''file'' ''photo'' ''tent.png'')\<lparr>f_files := [js ''tent.png'']\<rparr>),
         Owned (control ''radio'' ''colour'' ''red''),
         Owned ((control ''radio'' ''colour'' ''blue'')\<lparr>f_checked := True\<rparr>)] (js ''colour'')
        = Some (Owned (control ''radio'' ''colour'' ''red''))
   \<and> (\<exists>data. saveFormData
          [Owned (control ''text'' ''title'' ''Tent''),
           Owned ((control ''file'' ''photo'' ''tent.png'')\<lparr>f_files := [js ''tent.png'']\<rparr>),
           Owned (control ''radio'' ''colour'' ''red''),
           Owned ((control ''radio'' ''colour'' ''blue'')\<lparr>f_checked := True\<rparr>)]
          (js ''listing'') \<lparr>localStorage = Map.empty, console = [], notifications = []\<rparr>
        = Done \<lparr>localStorage = [storageKey (js ''listing'') \<mapsto> JSON_stringify data],
                 console = [ConsoleLog ([0xD83D, 0xDCDD] @ js '' Form data saved: '' @ js ''listing'')],
                 notifications = []\<rparr>
        \<and> js ''photo'' \<notin> fst ` set data
        \<and> map_of data (js ''title'') = Some (Str (js ''Tent''))
        \<and> map_of data (js ''colour'') = Some (Str (js ''blue'')))"
proof -
  let ?title = "control ''text'' ''title'' ''Tent''"
  let ?photo = "(control ''file'' ''photo'' ''tent.png'')\<lparr>f_files := [js ''tent.png'']\<rparr>"
  let ?red = "control ''radio'' ''colour'' ''red''"
  let ?blue = "(control ''radio'' ''colour'' ''blue'')\<lparr>f_checked := True\<rparr>"
  let ?fm = "[Owned ?title, Owned ?photo, Owned ?red, Owned ?blue]"
  let ?pg = "\<lparr>localStorage = Map.empty, console = [], notifications = []\<rparr>"
  let ?E = "[(js ''title'', Str (js ''Tent'')), (js ''photo'', File (js ''tent.png'')),
        (js ''colour'', Str (js ''blue''))]"
  have E: "formDataEntries ?fm = ?E"
    by (simp add: formDataEntries_def entriesOfControl_def control_def js_def
        isHighSurrogate_def isLowSurrogate_def asciiLowercase_def)
  have p: "plainName (js ''title'')" "plainName (js ''photo'')" "plainName (js ''colour'')"
    by (simp_all add: plainName_def js_def isHighSurrogate_def isLowSurrogate_def)
  have q1: "querySelector ?fm (js ''title'') = Some (Owned ?title)"
    by (simp add: querySelector_def control_def js_def)
  have q2: "querySelector ?fm (js ''photo'') = Some (Owned ?photo)"
    by (simp add: querySelector_def control_def js_def)
  have q3: "querySelector ?fm (js ''colour'') = Some (Owned ?red)"
    by (simp add: querySelector_def control_def js_def)
  have t: "typeOf (Owned ?title) \<noteq> js ''file''" "typeOf (Owned ?photo) = js ''file''"
    "typeOf (Owned ?red) \<noteq> js ''file''"
    by (simp_all add: control_def js_def)
  have h1: "\<forall>(k, v) \<in> set (formDataEntries ?fm). plainName k"
    unfolding E using p by simp
  have h2: "\<forall>(k, v) \<in> set (formDataEntries ?fm).
        \<exists>el. querySelector ?fm k = Some el \<and> (typeOf el = js ''file'' \<longleftrightarrow> (\<exists>n. v = File n))"
    unfolding E using q1 q2 q3 t by simp
  from saved_payload_contents [OF h1 h2, of "js ''listing''" ?pg] obtain data where
    s: "saveFormData ?fm (js ''listing'') ?pg =
          Done (?pg\<lparr>localStorage := (localStorage ?pg)(storageKey (js ''listing'') \<mapsto> JSON_stringify data),
                    console := console ?pg @
                      [ConsoleLog ([0xD83D, 0xDCDD] @ js '' Form data saved: '' @ js ''listing'')]\<rparr>)"
    and m: "\<forall>k. map_of data k =
                (if k = js ''__proto__'' then None
                 else case map_of (rev (formDataEntries ?fm)) k of
                        Some (Str s) \<Rightarrow> Some (Str s)
                      | Some (File n) \<Rightarrow> None
                      | None \<Rightarrow> None)"
    and f: "\<forall>k n. (k, File n) \<in> set (formDataEntries ?fm) \<longrightarrow> k \<notin> fst ` set data"
    by (elim exE conjE)
  have r1: "js ''photo'' \<notin> fst ` set data"
    using f [rule_format, of "js ''photo''" "js ''tent.png''"] unfolding E by simp
  have r2: "map_of data (js ''title'') = Some (Str (js ''Tent''))"
    unfolding m [rule_format] E by (simp add: js_def)
  have r3: "map_of data (js ''colour'') = Some (Str (js ''blue''))"
    unfolding m [rule_format] E by (simp add: js_def)
  from s have s': "saveFormData ?fm (js ''listing'') ?pg =
          Done \<lparr>localStorage = [storageKey (js ''listing'') \<mapsto> JSON_stringify data],
                 console = [ConsoleLog ([0xD83D, 0xDCDD] @ js '' Form data saved: '' @ js ''listing'')],
                 notifications = []\<rparr>"
    by simp
  from s' r1 r2 r3 have "\<exists>data. saveFormData ?fm (js ''listing'') ?pg =
          Done \<lparr>localStorage = [storageKey (js ''listing'') \<mapsto> JSON_stringify data],
                 console = [ConsoleLog ([0xD83D, 0xDCDD] @ js '' Form data saved: '' @ js ''listing'')],
                 notifications = []\<rparr>
        \<and> js ''photo'' \<notin> fst ` set data
        \<and> map_of data (js ''title'') = Some (Str (js ''Tent''))
        \<and> map_of data (js ''colour'') = Some (Str (js ''blue''))"
    by blast
  with E p q1 q2 q3 show ?thesis by (intro conjI)
qed

text \<open>
  An unchecked checkbox and a disabled text input are named fields that are not file
  inputs, and their values are not collected: the payload holds the third field only.
\<close>

theorem saved_payload_counterexample:
  "saveFormData
     [Owned (control ''checkbox'' ''agree'' ''on''),
      Owned ((control ''text'' ''ref'' ''X'')\<lparr>f_disabled := True\<rparr>),
      Owned (control ''text'' ''tag'' ''b'')]
     (js ''profile'')
     \<lparr>localStorage = Map.empty, console = [], notifications = []\<rparr>
   = Done \<lparr>localStorage = [storageKey (js ''profile'') \<mapsto> js ''{\"tag\":\"b\"}''],
            console = [ConsoleLog ([0xD83D, 0xDCDD] @ js '' Form data saved: profile'')],
            notifications = []\<rparr>
   \<and> f_type (control ''checkbox'' ''agree'' ''on'') \<noteq> js ''file''
   \<and> f_type ((control ''text'' ''ref'' ''X'')\<lparr>f_disabled := True\<rparr>) \<noteq> js ''file''"
  by (simp add: save_eval)

subsection \<open>A payload that does not parse\<close>

text \<open>
  Claim C7, as amended. When the stored string is not empty and does not parse as JSON,
  \<open>loadFormData\<close> returns normally: nothing is thrown to the caller, the form with all its
  fields is returned unchanged, the store is untouched, and the \<open>SyntaxError\<close> is logged
  with \<open>console.error\<close>. The empty string is taken for missing data before any parsing:
  the function returns at once, with the form unchanged and nothing logged.
\<close>

theorem malformed_payload_is_skipped:
  assumes "localStorage pg (storageKey formId) = Some savedData" "JSON_parse savedData = None"
  shows "loadFormData fm formId pg =
           Done (fm, if savedData = [] then pg
                     else pg\<lparr>console := console pg @
                            [ConsoleError (js ''Error loading form data:'') SyntaxError]\<rparr>)"
  using assms by (simp add: loadFormData_def)

theorem malformed_payload_is_skipped_witness:
  "localStorage \<lparr>localStorage = [storageKey (js ''signup'') \<mapsto> js ''{oops''], console = [],
                 notifications = []\<rparr> (storageKey (js ''signup'')) = Some (js ''{oops'')
   \<and> JSON_parse (js ''{oops'') = None
   \<and> js ''{oops'' \<noteq> []
   \<and> loadFormData [Owned (control ''text'' ''name'' ''Bob'')] (js ''signup'')
        \<lparr>localStorage = [storageKey (js ''signup'') \<mapsto> js ''{oops''], console = [], notifications = []\<rparr>
      = Done ([Owned (control ''text'' ''name'' ''Bob'')],
              \<lparr>localStorage = [storageKey (js ''signup'') \<mapsto> js ''{oops''],
               console = [ConsoleError (js ''Error loading form data:'') SyntaxError],
               notifications = []\<rparr>)"
proof -
  let ?pg = "\<lparr>localStorage = [storageKey (js ''signup'') \<mapsto> js ''{oops''], console = [],
                 notifications = []\<rparr>"
  let ?fm = "[Owned (control ''text'' ''name'' ''Bob'')]"
  have h1: "localStorage ?pg (storageKey (js ''signup'')) = Some (js ''{oops'')" by simp
  have h2: "JSON_parse (js ''{oops'') = None" by code_simp
  have h3: "js ''{oops'' \<noteq> []" by (simp add: js_def)
  from malformed_payload_is_skipped [OF h1 h2, of ?fm] h3
  have "loadFormData ?fm (js ''signup'') ?pg
      = Done (?fm, \<lparr>localStorage = [storageKey (js ''signup'') \<mapsto> js ''{oops''],
               console = [ConsoleError (js ''Error loading form data:'') SyntaxError],
               notifications = []\<rparr>)"
    by simp
  with h1 h2 h3 show ?thesis by (intro conjI)
qed

text \<open>
  The empty string is a stored string that does not parse as JSON, and \<open>loadFormData\<close>
  logs nothing for it: the console is as it was.
\<close>

theorem malformed_payload_counterexample:
  "localStorage \<lparr>localStorage = [storageKey (js ''signup'') \<mapsto> []], console = [],
                 notifications = []\<rparr> (storageKey (js ''signup'')) = Some []
   \<and> JSON_parse [] = None
   \<and> loadFormData [Owned (control ''text'' ''name'' ''Bob'')] (js ''signup'')
        \<lparr>localStorage = [storageKey (js ''signup'') \<mapsto> []], console = [], notifications = []\<rparr>
      = Done ([Owned (control ''text'' ''name'' ''Bob'')],
              \<lparr>localStorage = [storageKey (js ''signup'') \<mapsto> []], console = [],
               notifications = []\<rparr>)"
proof -
  have p: "JSON_parse [] = None"
    by (simp add: JSON_parse_def skipWhiteSpace_def parseValue.simps)
  show ?thesis using p by (simp add: loadFormData_def)
qed

subsection \<open>Round trip\<close>








end
